theory Spec2Isabelle
  imports Complex_Main
begin

section \<open>Simple types and constrained types of the order-taking domain\<close>

text \<open>
  The TypeScript type \<open>number\<close> (aliased as \<open>Int\<close>, \<open>Decimal\<close>, \<open>Price\<close>,
  \<open>BillingAmount\<close>) is modelled by the rationals: every finite double is a rational, the
  comparisons \<open><\<close> and \<open>>\<close> of finite doubles are those of the rationals they denote, and
  \<open>Number.isInteger\<close> holds exactly of the integral ones. The values NaN and the
  infinities are left out.

  The product \<open>a * b\<close> of two doubles is not the product of the rationals: it is that
  product rounded to a double (\<open>7 * 142.85714285714286\<close> is \<open>1000\<close>). The rounding is not
  modelled. The double product is a parameter \<open>dmul\<close> of every function that multiplies or
  calls one that does, so that what is proved holds of the product the code computes,
  whatever its rounding.
\<close>

type_synonym number = rat

type_synonym DoubleMul = "number \<Rightarrow> number \<Rightarrow> number"

definition isInteger :: "number \<Rightarrow> bool" where
  "isInteger i = (of_int \<lfloor>i\<rfloor> = i)"

text \<open>
  An error message is built by a template literal. It is kept as the sequence of the
  template's parts, an interpolated number staying a number, so that no rendering of
  doubles as text has to be modelled.
\<close>

datatype piece = Text string | Num number

type_synonym message = "piece list"

datatype ErrType =
  Empty | TooLong | TooSmall | TooBig | NotInt | NotDecimal | DoesNotMatch
  | UnknownFormat | InvalidFormat | AddressNotFound | Validation | Pricing | RemoteService

text \<open>\<open>type Err = {msg: string}\<close>, intersected at every use with an \<open>errType\<close> tag.\<close>

record Err =
  errType :: ErrType
  msg :: message

subsection \<open>Namespace \<open>ConstrainedType\<close>\<close>

text \<open>
  The parameters are typed \<open>string\<close>, which excludes \<open>null\<close> and \<open>undefined\<close>; on a string
  \<open>[null, undefined, ''].includes(str)\<close> is the comparison with the empty string.
\<close>

definition isEmptyString :: "string \<Rightarrow> bool" where
  "isEmptyString str = (str = [])"

definition createString :: "string \<Rightarrow> number \<Rightarrow> string \<Rightarrow> Err + string" where
  "createString fieldName maxLen str =
     (if isEmptyString str then
        Inl \<lparr>errType = Empty,
             msg = [Text fieldName, Text '' must not be null or undefined or empty'']\<rparr>
      else if of_nat (length str) > maxLen then
        Inl \<lparr>errType = TooLong,
             msg = [Text fieldName, Text '' must not be more than '', Num maxLen, Text '' chars'']\<rparr>
      else Inr str)"

text \<open>
  \<open>createStringOption\<close> returns \<open>string | null | CreateStringTooLongError\<close>: the absent
  result \<open>null\<close> is \<open>None\<close>. The \<open>default\<close> branch of its switch falls through to the
  final \<open>return null\<close>.
\<close>

definition createStringOption :: "string \<Rightarrow> number \<Rightarrow> string \<Rightarrow> Err + string option" where
  "createStringOption fieldName maxLen str =
     (case createString fieldName maxLen str of
        Inr s \<Rightarrow> Inr (Some s)
      | Inl s \<Rightarrow>
          (case errType s of
             Empty \<Rightarrow> Inr None
           | TooLong \<Rightarrow> Inl s
           | _ \<Rightarrow> Inr None))"

definition createInt :: "string \<Rightarrow> number \<Rightarrow> number \<Rightarrow> number \<Rightarrow> Err + number" where
  "createInt fieldName minVal maxVal i =
     (if i < minVal then
        Inl \<lparr>errType = TooSmall, msg = [Num i, Text '': Must not be less than '', Num minVal]\<rparr>
      else if i > maxVal then
        Inl \<lparr>errType = TooBig, msg = [Num i, Text '': Must not be greater than '', Num maxVal]\<rparr>
      else if \<not> isInteger i then
        Inl \<lparr>errType = NotInt, msg = [Num i, Text '': Must be integer'']\<rparr>
      else Inr i)"

definition createDecimal :: "string \<Rightarrow> number \<Rightarrow> number \<Rightarrow> number \<Rightarrow> Err + number" where
  "createDecimal fieldName minVal maxVal i =
     (if i < minVal then
        Inl \<lparr>errType = TooSmall, msg = [Num i, Text '': Must not be less than '', Num minVal]\<rparr>
      else if i > maxVal then
        Inl \<lparr>errType = TooBig, msg = [Num i, Text '': Must not be greater than '', Num maxVal]\<rparr>
      else if \<not> isInteger i then
        Inl \<lparr>errType = NotDecimal, msg = [Num i, Text '': Must be decimal'']\<rparr>
      else Inr i)"

text \<open>
  Regular expressions. The patterns of the domain types are built by \<open>new RegExp(s)\<close> from
  the string literals \<open>'\d{5}'\<close>, \<open>'W\d{4}'\<close> and \<open>'G\d{3}'\<close>. In a JavaScript string literal
  the escape \<open>\d\<close> is the letter \<open>d\<close>, so the pattern sources are \<open>d{5}\<close>, \<open>Wd{4}\<close> and
  \<open>Gd{3}\<close>: a sequence of characters, each repeated a fixed number of times. A \<open>RegExp\<close> is
  modelled as that sequence. \<open>pattern.test(str)\<close> has no anchor, so it searches \<open>str\<close> for a
  position where the pattern matches.
\<close>

type_synonym RegExp = "(char \<times> nat) list"

fun matchesAt :: "RegExp \<Rightarrow> string \<Rightarrow> bool" where
  "matchesAt [] s = True"
| "matchesAt ((c, n) # p) s = (take n s = replicate n c \<and> matchesAt p (drop n s))"

fun regexp_test :: "RegExp \<Rightarrow> string \<Rightarrow> bool" where
  "regexp_test p [] = matchesAt p []"
| "regexp_test p (x # xs) = (matchesAt p (x # xs) \<or> regexp_test p xs)"

definition createLike :: "string \<Rightarrow> RegExp \<Rightarrow> string \<Rightarrow> Err + string" where
  "createLike fieldName pattern str =
     (if isEmptyString str then
        Inl \<lparr>errType = Empty, msg = [Text str, Text '': Must not be null or empty'']\<rparr>
      else if \<not> regexp_test pattern str then
        Inl \<lparr>errType = DoesNotMatch, msg = [Text str, Text '': Must not be null or empty'']\<rparr>
      else Inr str)"

subsection \<open>Domain value types\<close>

text \<open>
  The constructors \<open>create\<close> of the namespaces, under the names \<open>String50_create\<close>,
  \<open>ProductCode_create\<close> and so on. The getters \<open>value\<close> return the value they are given (or
  its field) and are left out, but for the one \<open>createBillingEvent\<close> calls; so are
  \<open>EmailAddress.create\<close> and \<open>Price.unsafeCreate\<close>, which the workflow does not call.
\<close>

definition String50_create :: "string \<Rightarrow> string \<Rightarrow> Err + string" where
  "String50_create fieldName str = createString fieldName 50 str"

definition ZipCode_create :: "string \<Rightarrow> string \<Rightarrow> Err + string" where
  "ZipCode_create fieldName str = createLike fieldName [(CHR ''d'', 5)] str"

definition OrderId_create :: "string \<Rightarrow> string \<Rightarrow> Err + string" where
  "OrderId_create fieldName str = createString fieldName 50 str"

definition OrderLineId_create :: "string \<Rightarrow> string \<Rightarrow> Err + string" where
  "OrderLineId_create fieldName str = createString fieldName 50 str"

datatype ProductType = widget | gizmo

text \<open>\<open>ProductCode = WidgetCode | GizmoCode\<close>, both \<open>{productType, code}\<close>.\<close>

record ProductCode =
  productType :: ProductType
  code :: string

definition WidgetCode_create :: "string \<Rightarrow> string \<Rightarrow> Err + ProductCode" where
  "WidgetCode_create fieldName str =
     (case createLike fieldName [(CHR ''W'', 1), (CHR ''d'', 4)] str of
        Inr c \<Rightarrow> Inr \<lparr>productType = widget, code = c\<rparr>
      | Inl e \<Rightarrow> Inl e)"

definition GizmoCode_create :: "string \<Rightarrow> string \<Rightarrow> Err + ProductCode" where
  "GizmoCode_create fieldName str =
     (case createLike fieldName [(CHR ''G'', 1), (CHR ''d'', 3)] str of
        Inr c \<Rightarrow> Inr \<lparr>productType = gizmo, code = c\<rparr>
      | Inl e \<Rightarrow> Inl e)"

definition startsWith :: "string \<Rightarrow> string \<Rightarrow> bool" where
  "startsWith str searchString = (take (length searchString) str = searchString)"

definition ProductCode_create :: "string \<Rightarrow> string \<Rightarrow> Err + ProductCode" where
  "ProductCode_create fieldName c =
     (if startsWith c ''W'' then WidgetCode_create fieldName c
      else if startsWith c ''G'' then GizmoCode_create fieldName c
      else Inl \<lparr>errType = UnknownFormat,
                msg = [Text fieldName, Text '': Format not recognized '', Text [CHR 0x27],
                       Text c, Text [CHR 0x27]]\<rparr>)"

datatype QuantityType = Unit | Kilogram

text \<open>\<open>OrderQuantity = UnitQuantity | KilogramQuantity\<close>, both \<open>{quantityType, quantity}\<close>.\<close>

record OrderQuantity =
  quantityType :: QuantityType
  quantity :: number

definition UnitQuantity_create :: "string \<Rightarrow> number \<Rightarrow> Err + OrderQuantity" where
  "UnitQuantity_create fieldName v =
     (case createInt fieldName 1 1000 v of
        Inr q \<Rightarrow> Inr \<lparr>quantityType = Unit, quantity = q\<rparr>
      | Inl e \<Rightarrow> Inl e)"

definition KilogramQuantity_create :: "string \<Rightarrow> number \<Rightarrow> Err + OrderQuantity" where
  "KilogramQuantity_create fieldName v =
     (case createDecimal fieldName (5 / 10) 100 v of
        Inr q \<Rightarrow> Inr \<lparr>quantityType = Kilogram, quantity = q\<rparr>
      | Inl e \<Rightarrow> Inl e)"

definition OrderQuantity_create :: "string \<Rightarrow> ProductCode \<Rightarrow> number \<Rightarrow> Err + OrderQuantity" where
  "OrderQuantity_create fieldName productCode v =
     (case productType productCode of
        widget \<Rightarrow> UnitQuantity_create fieldName v
      | gizmo \<Rightarrow> KilogramQuantity_create fieldName v)"

definition Price_create :: "number \<Rightarrow> Err + number" where
  "Price_create v = createDecimal ''Price'' 0 1000 v"

definition Price_multiply :: "DoubleMul \<Rightarrow> OrderQuantity \<Rightarrow> number \<Rightarrow> Err + number" where
  "Price_multiply dmul qty price = Price_create (dmul (quantity qty) price)"

definition BillingAmount_value :: "number \<Rightarrow> number" where
  "BillingAmount_value v = v"

definition BillingAmount_create :: "number \<Rightarrow> Err + number" where
  "BillingAmount_create v = createDecimal ''BillingAmount'' 0 10000 v"

text \<open>
  Modelled from the spec: \<open>BillingAmount.sumPrices\<close>, which \<open>priceOrder\<close> calls and the
  namespace \<open>BillingAmount\<close> of the source does not contain. The spec: the billing amount is
  the sum of the line prices, and the summation re-runs the bounded-decimal check on its
  result. The sum is exact where \<open>priceOrder\<close> calls it: the prices it sums were returned
  by \<open>Price.create\<close>, so they are integers from 0 to 1000 (lemma \<open>priced_line_integral\<close>
  below), an array has fewer than \<open>2^32\<close> elements, and double addition is exact on
  integers below \<open>2^53\<close>.
\<close>

definition BillingAmount_sumPrices :: "number list \<Rightarrow> Err + number" where
  "BillingAmount_sumPrices prices = BillingAmount_create (sum_list prices)"

section \<open>Compound types and the public types of the workflow\<close>

record PersonalName =
  firstName :: string
  lastName :: string

record CustomerInfo =
  name :: PersonalName
  emailAddress :: string

record Address =
  addressLine1 :: string
  addressLine2 :: "string option"
  addressLine3 :: "string option"
  addressLine4 :: "string option"
  city :: string
  zipCode :: string

text \<open>
  Several interfaces share field names (\<open>orderId\<close>, \<open>lines\<close>, \<open>quantity\<close>, ...); a record's
  fields are constants, so the fields of each interface carry a prefix: \<open>u_\<close> for the
  unvalidated inputs, \<open>v_\<close> for the validated order, \<open>p_\<close> for the priced order, \<open>b_\<close> for
  the billing event, \<open>a_\<close> for the acknowledgment event, \<open>ack_\<close> for the acknowledgment.
\<close>

record UnvalidatedCustomerInfo =
  u_firstName :: string
  u_lastName :: string
  u_emailAddress :: string
  u_vipStatus :: string

record UnvalidatedAddress =
  u_isValidated :: bool
  u_addressLine1 :: string
  u_addressLine2 :: string
  u_addressLine3 :: string
  u_addressLine4 :: string
  u_city :: string
  u_zipCode :: string
  u_state :: string
  u_country :: string

text \<open>
  \<open>CheckedAddress\<close> is \<open>UnvalidatedAddress\<close> with the literal type of \<open>isValidated\<close> changed
  from \<open>false\<close> to \<open>true\<close>; no function reads the flag.
\<close>

type_synonym CheckedAddress = UnvalidatedAddress

record UnvalidatedOrderLine =
  u_orderLineId :: string
  u_productCode :: string
  u_quantity :: number

record UnvalidatedOrder =
  u_orderId :: string
  u_customerInfo :: UnvalidatedCustomerInfo
  u_shippingAddress :: UnvalidatedAddress
  u_billingAddress :: UnvalidatedAddress
  u_lines :: "UnvalidatedOrderLine list"

record OrderAcknowledgmentSent =
  a_orderId :: string
  a_emailAddress :: string

record PricedOrderLine =
  p_orderLineId :: string
  p_productCode :: ProductCode
  p_quantity :: OrderQuantity
  p_linePrice :: number

record PricedOrder =
  p_orderId :: string
  p_customerInfo :: CustomerInfo
  p_shippingAddress :: Address
  p_billingAddress :: Address
  p_amountToBill :: number
  p_lines :: "PricedOrderLine list"

record BillableOrderPlaced =
  b_orderId :: string
  b_billingAddress :: Address
  b_amountToBill :: number

text \<open>
  \<open>PlaceOrderEvent = OrderPlaced | BillableOrderPlaced | OrderAcknowledgmentSent\<close>, with
  \<open>OrderPlaced = PricedOrder\<close>. The three interfaces differ in their fields; the
  constructor records which one an event was built as.
\<close>

datatype PlaceOrderEvent =
  OrderPlacedEvent PricedOrder
  | BillableOrderPlacedEvent BillableOrderPlaced
  | OrderAcknowledgmentSentEvent OrderAcknowledgmentSent

definition createValidationError :: "message \<Rightarrow> Err" where
  "createValidationError m = \<lparr>errType = Validation, msg = m\<rparr>"

definition createPricingError :: "message \<Rightarrow> Err" where
  "createPricingError m = \<lparr>errType = Pricing, msg = m\<rparr>"

section \<open>The steps of the workflow, as types\<close>

record ValidatedOrderLine =
  v_orderLineId :: string
  v_productCode :: ProductCode
  v_quantity :: OrderQuantity

record ValidatedOrder =
  v_orderId :: string
  v_customerInfo :: CustomerInfo
  v_shippingAddress :: Address
  v_billingAddress :: Address
  v_lines :: "ValidatedOrderLine list"

record OrderAcknowledgment =
  ack_emailAddress :: string
  ack_letter :: string

datatype SendResult = Sent | NotSent

text \<open>
  The capabilities the caller supplies are functions of their declared types. The promise
  that \<open>checkAddressExists\<close> returns is modelled by the value it resolves to; a capability
  that throws or rejects is outside the model.
\<close>

type_synonym CheckProductCodeExists = "ProductCode \<Rightarrow> bool"
type_synonym CheckAddressExists = "UnvalidatedAddress \<Rightarrow> Err + CheckedAddress"
type_synonym GetProductPrice = "ProductCode \<Rightarrow> number"
type_synonym CreateOrderAcknowledgmentLetter = "PricedOrder \<Rightarrow> string"
type_synonym SendOrderAcknowledgment = "OrderAcknowledgment \<Rightarrow> SendResult"

text \<open>
  Calling a capability is the only effect of the workflow. Every function that calls one
  returns, beside its result, the calls it made, in the order it made them.
\<close>

datatype Call =
  Call_checkProductCodeExists ProductCode
  | Call_checkAddressExists UnvalidatedAddress
  | Call_getProductPrice ProductCode
  | Call_createOrderAcknowledgmentLetter PricedOrder
  | Call_sendOrderAcknowledgment OrderAcknowledgment

text \<open>\<open>xs.map(f)\<close> for an \<open>f\<close> that calls capabilities: the elements are visited in order.\<close>

definition mapCalls :: "('a \<Rightarrow> 'b \<times> Call list) \<Rightarrow> 'a list \<Rightarrow> 'b list \<times> Call list" where
  "mapCalls f xs = (map (\<lambda>x. fst (f x)) xs, concat (map (\<lambda>x. snd (f x)) xs))"

text \<open>
  Modelled from the spec: \<open>splitErr\<close> (and the guard \<open>isErr\<close>), imported from the simple
  types and absent from their source. The spec: the results of all lines are collected,
  and the first collected error is the one returned. \<open>splitErr\<close> separates a list of
  results into the values and the errors, each in the order of the list; \<open>isErr\<close> is the
  test for \<open>Inl\<close>, written as a case distinction below.
\<close>

definition splitErr :: "(Err + 'a) list \<Rightarrow> 'a list \<times> Err list" where
  "splitErr rs = (map projr (filter (\<lambda>r. \<not> isl r) rs), map projl (filter isl rs))"

section \<open>Implementation of the workflow\<close>

subsection \<open>The step \<open>validateOrder\<close>\<close>

definition toCustomerInfo :: "UnvalidatedCustomerInfo \<Rightarrow> Err + CustomerInfo" where
  "toCustomerInfo unvalidatedCustomerInfo =
     (case String50_create ''FirstName'' (u_firstName unvalidatedCustomerInfo) of
        Inl e \<Rightarrow> Inl (createValidationError (msg e))
      | Inr firstName' \<Rightarrow>
     (case String50_create ''LastName'' (u_lastName unvalidatedCustomerInfo) of
        Inl e \<Rightarrow> Inl (createValidationError (msg e))
      | Inr lastName' \<Rightarrow>
     (case String50_create ''EmailAddress'' (u_emailAddress unvalidatedCustomerInfo) of
        Inl e \<Rightarrow> Inl (createValidationError (msg e))
      | Inr emailAddress' \<Rightarrow>
          Inr \<lparr>name = \<lparr>firstName = firstName', lastName = lastName'\<rparr>, emailAddress = emailAddress'\<rparr>)))"

text \<open>
  \<open>toAddress\<close> builds every line with \<open>String50.create\<close>, so the optional lines of the
  address it returns are always present.
\<close>

definition toAddress :: "CheckedAddress \<Rightarrow> Err + Address" where
  "toAddress checkedAddress =
     (case String50_create ''AddressLine1'' (u_addressLine1 checkedAddress) of
        Inl e \<Rightarrow> Inl (createValidationError (msg e))
      | Inr addressLine1' \<Rightarrow>
     (case String50_create ''AddressLine2'' (u_addressLine2 checkedAddress) of
        Inl e \<Rightarrow> Inl (createValidationError (msg e))
      | Inr addressLine2' \<Rightarrow>
     (case String50_create ''AddressLine3'' (u_addressLine3 checkedAddress) of
        Inl e \<Rightarrow> Inl (createValidationError (msg e))
      | Inr addressLine3' \<Rightarrow>
     (case String50_create ''AddressLine4'' (u_addressLine4 checkedAddress) of
        Inl e \<Rightarrow> Inl (createValidationError (msg e))
      | Inr addressLine4' \<Rightarrow>
     (case String50_create ''AddressLine4'' (u_city checkedAddress) of
        Inl e \<Rightarrow> Inl (createValidationError (msg e))
      | Inr city' \<Rightarrow>
     (case ZipCode_create ''AddressLine4'' (u_zipCode checkedAddress) of
        Inl e \<Rightarrow> Inl (createValidationError (msg e))
      | Inr zipCode' \<Rightarrow>
          Inr \<lparr>addressLine1 = addressLine1', addressLine2 = Some addressLine2',
               addressLine3 = Some addressLine3', addressLine4 = Some addressLine4',
               city = city', zipCode = zipCode'\<rparr>))))))"

definition toCheckedAddress ::
  "CheckAddressExists \<Rightarrow> UnvalidatedAddress \<Rightarrow> (Err + CheckedAddress) \<times> Call list" where
  "toCheckedAddress checkAddress address =
     ((case checkAddress address of
         Inl e \<Rightarrow> Inl (createValidationError (msg e))
       | Inr checkedAddress \<Rightarrow> Inr checkedAddress),
      [Call_checkAddressExists address])"

definition toOrderId :: "string \<Rightarrow> Err + string" where
  "toOrderId orderIdStr =
     (case OrderId_create ''OrderId'' orderIdStr of
        Inl e \<Rightarrow> Inl (createValidationError (msg e))
      | Inr orderId \<Rightarrow> Inr orderId)"

definition toOrderLineId :: "string \<Rightarrow> Err + string" where
  "toOrderLineId orderId =
     (case OrderLineId_create ''OrderLineId'' orderId of
        Inl e \<Rightarrow> Inl (createValidationError (msg e))
      | Inr orderLineId \<Rightarrow> Inr orderLineId)"

text \<open>
  In \<open>checkProduct\<close> the string \<open>'Invalid: ' + p\<close> concatenates the object \<open>p\<close>, which
  JavaScript renders as \<open>[object Object]\<close>.
\<close>

definition toProductCode ::
  "CheckProductCodeExists \<Rightarrow> string \<Rightarrow> (Err + ProductCode) \<times> Call list" where
  "toProductCode checkProductCodeExists c =
     (case ProductCode_create ''ProductCode'' c of
        Inl e \<Rightarrow> (Inl (createValidationError (msg e)), [])
      | Inr productCode \<Rightarrow>
          (let checkedProductCode =
                 (if checkProductCodeExists productCode then Inr productCode
                  else Inl (createValidationError [Text ''Invalid: [object Object]'']))
           in (case checkedProductCode of
                 Inl e \<Rightarrow> Inl (createValidationError (msg e))
               | Inr p \<Rightarrow> Inr p,
               [Call_checkProductCodeExists productCode])))"

definition toOrderQuantity :: "ProductCode \<Rightarrow> number \<Rightarrow> Err + OrderQuantity" where
  "toOrderQuantity productCode qty =
     (case OrderQuantity_create ''OrderQuantity'' productCode qty of
        Inl e \<Rightarrow> Inl (createValidationError (msg e))
      | Inr orderQuantity \<Rightarrow> Inr orderQuantity)"

definition toValidateOrderLine ::
  "CheckProductCodeExists \<Rightarrow> UnvalidatedOrderLine \<Rightarrow> (Err + ValidatedOrderLine) \<times> Call list" where
  "toValidateOrderLine checkProductExists unvalidatedOrderLine =
     (case toOrderLineId (u_orderLineId unvalidatedOrderLine) of
        Inl e \<Rightarrow> (Inl e, [])
      | Inr orderLineId \<Rightarrow>
          (case toProductCode checkProductExists (u_productCode unvalidatedOrderLine) of
             (Inl e, calls) \<Rightarrow> (Inl e, calls)
           | (Inr productCode, calls) \<Rightarrow>
               (case toOrderQuantity productCode (u_quantity unvalidatedOrderLine) of
                  Inl e \<Rightarrow> (Inl e, calls)
                | Inr qty \<Rightarrow>
                    (Inr \<lparr>v_orderLineId = orderLineId, v_productCode = productCode,
                          v_quantity = qty\<rparr>, calls))))"

definition validateOrder ::
  "CheckProductCodeExists \<Rightarrow> CheckAddressExists \<Rightarrow> UnvalidatedOrder
     \<Rightarrow> (Err + ValidatedOrder) \<times> Call list" where
  "validateOrder checkProductCodeExists checkAddressExists unvalidatedOrder =
     (case toOrderId (u_orderId unvalidatedOrder) of
        Inl e \<Rightarrow> (Inl e, [])
      | Inr orderId \<Rightarrow>
     (case toCustomerInfo (u_customerInfo unvalidatedOrder) of
        Inl e \<Rightarrow> (Inl e, [])
      | Inr customerInfo \<Rightarrow>
     (case toCheckedAddress checkAddressExists (u_shippingAddress unvalidatedOrder) of
        (Inl e, calls1) \<Rightarrow> (Inl e, calls1)
      | (Inr checkedShippingAddress, calls1) \<Rightarrow>
     (case toAddress checkedShippingAddress of
        Inl e \<Rightarrow> (Inl e, calls1)
      | Inr shippingAddress \<Rightarrow>
     (case toCheckedAddress checkAddressExists (u_billingAddress unvalidatedOrder) of
        (Inl e, calls2) \<Rightarrow> (Inl e, calls1 @ calls2)
      | (Inr checkedBillingAddress, calls2) \<Rightarrow>
     (case toAddress checkedBillingAddress of
        Inl e \<Rightarrow> (Inl e, calls1 @ calls2)
      | Inr billingAddress \<Rightarrow>
     (case mapCalls (toValidateOrderLine checkProductCodeExists) (u_lines unvalidatedOrder) of
        (results, calls3) \<Rightarrow>
     (case splitErr results of
        (lines, errs) \<Rightarrow>
          (if length errs > 0 then Inl (errs ! 0)
           else Inr \<lparr>v_orderId = orderId, v_customerInfo = customerInfo,
                     v_shippingAddress = shippingAddress, v_billingAddress = billingAddress,
                     v_lines = lines\<rparr>,
           calls1 @ calls2 @ calls3)))))))))"

subsection \<open>The step \<open>priceOrder\<close>\<close>

definition toPricedOrderLine ::
  "DoubleMul \<Rightarrow> GetProductPrice \<Rightarrow> ValidatedOrderLine
     \<Rightarrow> (Err + PricedOrderLine) \<times> Call list" where
  "toPricedOrderLine dmul getProductPrice validatedOrderLine =
     (let qty = v_quantity validatedOrderLine;
          price = getProductPrice (v_productCode validatedOrderLine);
          linePrice = Price_multiply dmul qty price
      in (case linePrice of
            Inl e \<Rightarrow> Inl \<lparr>errType = Pricing, msg = msg e\<rparr>
          | Inr lp \<Rightarrow>
              Inr \<lparr>p_orderLineId = v_orderLineId validatedOrderLine,
                   p_productCode = v_productCode validatedOrderLine,
                   p_quantity = v_quantity validatedOrderLine,
                   p_linePrice = lp\<rparr>,
          [Call_getProductPrice (v_productCode validatedOrderLine)]))"

definition priceOrder ::
  "DoubleMul \<Rightarrow> GetProductPrice \<Rightarrow> ValidatedOrder \<Rightarrow> (Err + PricedOrder) \<times> Call list" where
  "priceOrder dmul getProductPrice validatedOrder =
     (case mapCalls (toPricedOrderLine dmul getProductPrice) (v_lines validatedOrder) of
        (results, calls) \<Rightarrow>
     (case splitErr results of
        (lines, errs) \<Rightarrow>
          (if length errs > 0 then Inl (createPricingError (msg (errs ! 0)))
           else (let prices = map p_linePrice lines
                 in case BillingAmount_sumPrices prices of
                      Inl e \<Rightarrow> Inl (createPricingError (msg e))
                    | Inr amountToBill \<Rightarrow>
                        Inr \<lparr>p_orderId = v_orderId validatedOrder,
                             p_customerInfo = v_customerInfo validatedOrder,
                             p_shippingAddress = v_shippingAddress validatedOrder,
                             p_billingAddress = v_billingAddress validatedOrder,
                             p_amountToBill = amountToBill,
                             p_lines = lines\<rparr>),
           calls)))"

subsection \<open>The step \<open>acknowledgeOrder\<close>\<close>

definition acknowledgeOrder ::
  "CreateOrderAcknowledgmentLetter \<Rightarrow> SendOrderAcknowledgment \<Rightarrow> PricedOrder
     \<Rightarrow> OrderAcknowledgmentSent option \<times> Call list" where
  "acknowledgeOrder createOrderAcknowledgmentLetter sendOrderAcknowledgment pricedOrder =
     (let letter = createOrderAcknowledgmentLetter pricedOrder;
          acknowledgment =
            \<lparr>ack_emailAddress = emailAddress (p_customerInfo pricedOrder), ack_letter = letter\<rparr>
      in (case sendOrderAcknowledgment acknowledgment of
            Sent \<Rightarrow>
              Some \<lparr>a_orderId = p_orderId pricedOrder,
                    a_emailAddress = emailAddress (p_customerInfo pricedOrder)\<rparr>
          | NotSent \<Rightarrow> None,
          [Call_createOrderAcknowledgmentLetter pricedOrder,
           Call_sendOrderAcknowledgment acknowledgment]))"

subsection \<open>Creating the events\<close>

definition createOrderPlacedEvent :: "PricedOrder \<Rightarrow> PricedOrder" where
  "createOrderPlacedEvent placedOrder = placedOrder"

definition createBillingEvent :: "PricedOrder \<Rightarrow> BillableOrderPlaced option" where
  "createBillingEvent placedOrder =
     (let billingAmount = BillingAmount_value (p_amountToBill placedOrder)
      in if billingAmount > 0 then
           Some \<lparr>b_orderId = p_orderId placedOrder,
                 b_billingAddress = p_billingAddress placedOrder,
                 b_amountToBill = p_amountToBill placedOrder\<rparr>
         else None)"

definition listOfOption :: "'a option \<Rightarrow> 'a list" where
  "listOfOption opt = (case opt of None \<Rightarrow> [] | Some x \<Rightarrow> [x])"

definition createEvents :: "PricedOrder \<Rightarrow> OrderAcknowledgmentSent option \<Rightarrow> PlaceOrderEvent list" where
  "createEvents pricedOrder orderAcknowledgmentEventOpt =
     (let acknowledgmentEvents = listOfOption orderAcknowledgmentEventOpt;
          orderPlacedEvents = [createOrderPlacedEvent pricedOrder];
          billingEvents = listOfOption (createBillingEvent pricedOrder)
      in map OrderAcknowledgmentSentEvent acknowledgmentEvents
         @ map OrderPlacedEvent orderPlacedEvents
         @ map BillableOrderPlacedEvent billingEvents)"

subsection \<open>The overall workflow\<close>

definition placeOrder ::
  "DoubleMul \<Rightarrow> CheckProductCodeExists \<Rightarrow> CheckAddressExists \<Rightarrow> GetProductPrice
     \<Rightarrow> CreateOrderAcknowledgmentLetter \<Rightarrow> SendOrderAcknowledgment \<Rightarrow> UnvalidatedOrder
     \<Rightarrow> (Err + PlaceOrderEvent list) \<times> Call list" where
  "placeOrder dmul checkProductExists checkAddressExists getProductPrice
       createOrderAcknowledgmentLetter sendOrderAcknowledgment unvalidatedOrder =
     (case validateOrder checkProductExists checkAddressExists unvalidatedOrder of
        (Inl e, calls1) \<Rightarrow> (Inl e, calls1)
      | (Inr validatedOrder, calls1) \<Rightarrow>
     (case priceOrder dmul getProductPrice validatedOrder of
        (Inl e, calls2) \<Rightarrow> (Inl e, calls1 @ calls2)
      | (Inr pricedOrder, calls2) \<Rightarrow>
     (case acknowledgeOrder createOrderAcknowledgmentLetter sendOrderAcknowledgment pricedOrder of
        (acknowledgementOption, calls3) \<Rightarrow>
          (Inr (createEvents pricedOrder acknowledgementOption), calls1 @ calls2 @ calls3))))"

section \<open>Notions used in the statements, and sample inputs\<close>

text \<open>
  The results of pricing the lines of an order, in the order of the lines: the array that
  \<open>priceOrder\<close> hands to \<open>splitErr\<close>.
\<close>

definition pricedLineResults ::
  "DoubleMul \<Rightarrow> GetProductPrice \<Rightarrow> ValidatedOrder \<Rightarrow> (Err + PricedOrderLine) list" where
  "pricedLineResults dmul g vo = map (\<lambda>l. fst (toPricedOrderLine dmul g l)) (v_lines vo)"

text \<open>
  Likewise the results of validating the lines of an order, the array that \<open>validateOrder\<close>
  hands to \<open>splitErr\<close>, and the calls made while validating them, line after line.
\<close>

definition validatedLineResults ::
  "CheckProductCodeExists \<Rightarrow> UnvalidatedOrder \<Rightarrow> (Err + ValidatedOrderLine) list" where
  "validatedLineResults cp uo = map (\<lambda>l. fst (toValidateOrderLine cp l)) (u_lines uo)"

definition validatedLineCalls :: "CheckProductCodeExists \<Rightarrow> UnvalidatedOrder \<Rightarrow> Call list" where
  "validatedLineCalls cp uo = concat (map (\<lambda>l. snd (toValidateOrderLine cp l)) (u_lines uo))"

text \<open>The place of each kind of event in the list that \<open>createEvents\<close> returns.\<close>

definition eventRank :: "PlaceOrderEvent \<Rightarrow> nat" where
  "eventRank ev =
     (case ev of
        OrderAcknowledgmentSentEvent _ \<Rightarrow> 0
      | OrderPlacedEvent _ \<Rightarrow> 1
      | BillableOrderPlacedEvent _ \<Rightarrow> 2)"

text \<open>Sample inputs, on which the theorems below are instantiated.\<close>

definition sampleCustomerInfo :: CustomerInfo where
  "sampleCustomerInfo =
     \<lparr>name = \<lparr>firstName = ''Ada'', lastName = ''Lovelace''\<rparr>, emailAddress = ''ada@example.org''\<rparr>"

definition sampleAddress :: Address where
  "sampleAddress =
     \<lparr>addressLine1 = ''1 Main Street'', addressLine2 = Some ''Flat 2'',
      addressLine3 = Some ''West Wing'', addressLine4 = Some ''Block C'',
      city = ''Springfield'', zipCode = ''ddddd''\<rparr>"

definition widgetLine :: "string \<Rightarrow> number \<Rightarrow> ValidatedOrderLine" where
  "widgetLine lineId n =
     \<lparr>v_orderLineId = lineId, v_productCode = \<lparr>productType = widget, code = ''Wdddd''\<rparr>,
      v_quantity = \<lparr>quantityType = Unit, quantity = n\<rparr>\<rparr>"

definition sampleValidatedOrder :: "ValidatedOrderLine list \<Rightarrow> ValidatedOrder" where
  "sampleValidatedOrder ls =
     \<lparr>v_orderId = ''O1'', v_customerInfo = sampleCustomerInfo,
      v_shippingAddress = sampleAddress, v_billingAddress = sampleAddress, v_lines = ls\<rparr>"

text \<open>
  The sample quantities and prices are integers whose products are far below \<open>2^53\<close>; the
  double product of such numbers is their product.
\<close>

definition exactMul :: DoubleMul where
  "exactMul a b = a * b"

text \<open>
  A product that rounds. The double \<open>142.85714285714286\<close> is the rational \<open>sampleDouble\<close>,
  with denominator \<open>2^45\<close>; seven times it is \<open>1000 + 2^-45\<close>, which lies between the doubles
  \<open>1000\<close> and \<open>1000 + 2^-43\<close> and is rounded to \<open>1000\<close>. \<open>roundingMul\<close> is the double product at
  this input, and at the other sample inputs.
\<close>

definition sampleDouble :: number where
  "sampleDouble = 5026338869833143 / 35184372088832"

definition roundingMul :: DoubleMul where
  "roundingMul a b = (if a = 7 \<and> b = sampleDouble then 1000 else a * b)"

definition doublePrice :: GetProductPrice where
  "doublePrice productCode = sampleDouble"

definition samplePrice :: GetProductPrice where
  "samplePrice productCode = (case productType productCode of widget \<Rightarrow> 5 | gizmo \<Rightarrow> 100)"

definition otherPrice :: GetProductPrice where
  "otherPrice productCode = (case productType productCode of widget \<Rightarrow> 5 | gizmo \<Rightarrow> 7)"

definition pricedWidgetLine :: "string \<Rightarrow> number \<Rightarrow> number \<Rightarrow> PricedOrderLine" where
  "pricedWidgetLine lineId n price =
     \<lparr>p_orderLineId = lineId, p_productCode = \<lparr>productType = widget, code = ''Wdddd''\<rparr>,
      p_quantity = \<lparr>quantityType = Unit, quantity = n\<rparr>, p_linePrice = price\<rparr>"

definition samplePricedOrder :: "number \<Rightarrow> PricedOrderLine list \<Rightarrow> PricedOrder" where
  "samplePricedOrder amount ls =
     \<lparr>p_orderId = ''O1'', p_customerInfo = sampleCustomerInfo,
      p_shippingAddress = sampleAddress, p_billingAddress = sampleAddress,
      p_amountToBill = amount, p_lines = ls\<rparr>"

definition sampleUnvalidatedCustomerInfo :: UnvalidatedCustomerInfo where
  "sampleUnvalidatedCustomerInfo =
     \<lparr>u_firstName = ''Ada'', u_lastName = ''Lovelace'', u_emailAddress = ''ada@example.org'',
      u_vipStatus = ''Normal''\<rparr>"

definition sampleUnvalidatedAddress :: "string \<Rightarrow> UnvalidatedAddress" where
  "sampleUnvalidatedAddress cityName =
     \<lparr>u_isValidated = False, u_addressLine1 = ''1 Main Street'', u_addressLine2 = ''Flat 2'',
      u_addressLine3 = ''West Wing'', u_addressLine4 = ''Block C'', u_city = cityName,
      u_zipCode = ''ddddd'', u_state = ''IL'', u_country = ''US''\<rparr>"

definition orderLine :: "string \<Rightarrow> string \<Rightarrow> number \<Rightarrow> UnvalidatedOrderLine" where
  "orderLine lineId productCode n =
     \<lparr>u_orderLineId = lineId, u_productCode = productCode, u_quantity = n\<rparr>"

definition sampleUnvalidatedOrder ::
  "string \<Rightarrow> string \<Rightarrow> UnvalidatedOrderLine list \<Rightarrow> UnvalidatedOrder" where
  "sampleUnvalidatedOrder orderId shippingCity ls =
     \<lparr>u_orderId = orderId, u_customerInfo = sampleUnvalidatedCustomerInfo,
      u_shippingAddress = sampleUnvalidatedAddress shippingCity,
      u_billingAddress = sampleUnvalidatedAddress ''Springfield'', u_lines = ls\<rparr>"

text \<open>Sample capabilities; \<open>knownAddress\<close> knows every address but those in Atlantis.\<close>

definition anyProduct :: CheckProductCodeExists where
  "anyProduct productCode = True"

definition knownAddress :: CheckAddressExists where
  "knownAddress address =
     (if u_city address = ''Atlantis''
      then Inl \<lparr>errType = AddressNotFound, msg = [Text ''Address not found'']\<rparr>
      else Inr (address\<lparr>u_isValidated := True\<rparr>))"

definition sampleLetter :: CreateOrderAcknowledgmentLetter where
  "sampleLetter pricedOrder = ''Thank you for your order''"

definition sendResult :: "SendResult \<Rightarrow> SendOrderAcknowledgment" where
  "sendResult r acknowledgment = r"

section \<open>Properties of the constrained types\<close>

text \<open>
  C4. \<open>ProductCode.create\<close> dispatches on the first character; the claim is that \<open>"W1234"\<close>
  yields the widget code \<open>W1234\<close>, \<open>"G123"\<close> a gizmo code, \<open>"X1"\<close> an \<open>UnknownFormat\<close> error and
  \<open>"W12"\<close> a \<open>DoesNotMatch\<close> error. The code answers \<open>"W1234"\<close> and \<open>"G123"\<close> with
  \<open>DoesNotMatch\<close>: its patterns, written \<open>'W\d{4}'\<close> and \<open>'G\d{3}'\<close> in string literals,
  match the letter \<open>d\<close> and not a digit, so the codes it accepts are those that contain
  \<open>Wdddd\<close> (and start with \<open>W\<close>) or \<open>Gddd\<close> (and start with \<open>G\<close>). The evaluation of the code
  at the four inputs of the claim, and at the two codes it does accept:
\<close>

theorem C4_ProductCode_create_examples:
  "ProductCode_create ''ProductCode'' ''W1234''
     = Inl \<lparr>errType = DoesNotMatch, msg = [Text ''W1234'', Text '': Must not be null or empty'']\<rparr>
   \<and> ProductCode_create ''ProductCode'' ''G123''
     = Inl \<lparr>errType = DoesNotMatch, msg = [Text ''G123'', Text '': Must not be null or empty'']\<rparr>
   \<and> ProductCode_create ''ProductCode'' ''X1''
     = Inl \<lparr>errType = UnknownFormat,
            msg = [Text ''ProductCode'', Text '': Format not recognized '', Text [CHR 0x27],
                   Text ''X1'', Text [CHR 0x27]]\<rparr>
   \<and> ProductCode_create ''ProductCode'' ''W12''
     = Inl \<lparr>errType = DoesNotMatch, msg = [Text ''W12'', Text '': Must not be null or empty'']\<rparr>
   \<and> ProductCode_create ''ProductCode'' ''Wdddd'' = Inr \<lparr>productType = widget, code = ''Wdddd''\<rparr>
   \<and> ProductCode_create ''ProductCode'' ''Gddd'' = Inr \<lparr>productType = gizmo, code = ''Gddd''\<rparr>"
  by code_simp

text \<open>
  C5. \<open>OrderQuantity.create\<close> dispatches on the tag of the product code: a widget code
  selects the unit quantity (an integer in 1..1000), a gizmo code the kilogram quantity
  (a decimal in 0.05..100.00); the claim is that a widget code with 500 gives the unit
  quantity 500 and with 1500 \<open>TooBig\<close>, and a gizmo code with 2.5 gives the kilogram
  quantity 2.5 and with 0.01 \<open>TooSmall\<close>. The code answers a gizmo code with 2.5 by a
  \<open>NotDecimal\<close> error (\<open>createDecimal\<close> refuses what \<open>Number.isInteger\<close> refuses), and its
  lower bound for kilograms is 0.5, so 0.1 is \<open>TooSmall\<close>. The evaluation of the code:
\<close>

theorem C5_OrderQuantity_create_examples:
  "OrderQuantity_create ''OrderQuantity'' \<lparr>productType = widget, code = ''Wdddd''\<rparr> 500
     = Inr \<lparr>quantityType = Unit, quantity = 500\<rparr>
   \<and> OrderQuantity_create ''OrderQuantity'' \<lparr>productType = widget, code = ''Wdddd''\<rparr> 1500
     = Inl \<lparr>errType = TooBig, msg = [Num 1500, Text '': Must not be greater than '', Num 1000]\<rparr>
   \<and> OrderQuantity_create ''OrderQuantity'' \<lparr>productType = gizmo, code = ''Gddd''\<rparr> (25 / 10)
     = Inl \<lparr>errType = NotDecimal, msg = [Num (25 / 10), Text '': Must be decimal'']\<rparr>
   \<and> OrderQuantity_create ''OrderQuantity'' \<lparr>productType = gizmo, code = ''Gddd''\<rparr> (1 / 100)
     = Inl \<lparr>errType = TooSmall,
            msg = [Num (1 / 100), Text '': Must not be less than '', Num (5 / 10)]\<rparr>
   \<and> OrderQuantity_create ''OrderQuantity'' \<lparr>productType = gizmo, code = ''Gddd''\<rparr> (1 / 10)
     = Inl \<lparr>errType = TooSmall,
            msg = [Num (1 / 10), Text '': Must not be less than '', Num (5 / 10)]\<rparr>
   \<and> OrderQuantity_create ''OrderQuantity'' \<lparr>productType = gizmo, code = ''Gddd''\<rparr> 3
     = Inr \<lparr>quantityType = Kilogram, quantity = 3\<rparr>"
  by code_simp

lemma isInteger_positive_ge_one:
  assumes "isInteger i" and "0 < i"
  shows "1 \<le> i"
proof -
  from assms(1) have "of_int \<lfloor>i\<rfloor> = i"
    unfolding isInteger_def .
  then have eq: "i = of_int \<lfloor>i\<rfloor>"
    by (rule sym)
  with assms(2) have "0 < (of_int \<lfloor>i\<rfloor> :: rat)"
    by simp
  then have "0 < \<lfloor>i\<rfloor>"
    by (simp only: of_int_0_less_iff)
  then have "1 \<le> \<lfloor>i\<rfloor>"
    by simp
  then have "(1::rat) \<le> of_int \<lfloor>i\<rfloor>"
    by (simp only: of_int_1_le_iff)
  with eq show ?thesis
    by simp
qed

lemma KilogramQuantity_create_integral:
  assumes "5 / 100 \<le> i" and "i \<le> 100" and "isInteger i"
  shows "KilogramQuantity_create f i = Inr \<lparr>quantityType = Kilogram, quantity = i\<rparr>"
proof -
  from assms(1) have "0 < i"
    by simp
  with assms(3) have "1 \<le> i"
    by (rule isInteger_positive_ge_one)
  with assms(2,3) show ?thesis
    by (simp add: KilogramQuantity_create_def createDecimal_def)
qed

text \<open>
  C6, as claimed: every bounded-integer and bounded-decimal constructor answers a value
  below the minimum with \<open>TooSmall\<close>, a value above the maximum with \<open>TooBig\<close>, and returns
  a value within the range unchanged. The last part fails: \<open>createInt\<close> has a third check,
  and refuses 1.5 in the range 1..1000 with \<open>NotInt\<close>.
\<close>

theorem C6_in_range_not_returned:
  "(1::rat) \<le> 3 / 2 \<and> (3 / 2 :: rat) \<le> 1000
   \<and> createInt ''UnitQuantity'' 1 1000 (3 / 2)
       = Inl \<lparr>errType = NotInt, msg = [Num (3 / 2), Text '': Must be integer'']\<rparr>"
  by code_simp

text \<open>
  C6, amended: for bounds \<open>lo \<le> hi\<close>, \<open>createInt\<close> and \<open>createDecimal\<close> answer a value below
  \<open>lo\<close> with \<open>TooSmall\<close> and a value above \<open>hi\<close> with \<open>TooBig\<close>, and return an integral value
  within the range unchanged; \<open>createInt\<close> answers a value within the range that is not
  integral with \<open>NotInt\<close>. The same holds of the domain types built on them, at their
  documented ranges: unit quantity 1..1000, kilogram quantity 0.05..100, price 0..1000,
  billing amount 0..10000 (the quantities return the value under their tag).
\<close>

theorem C6_bounded_constructors:
  "(i < lo \<longrightarrow>
      createInt f lo hi i
        = Inl \<lparr>errType = TooSmall, msg = [Num i, Text '': Must not be less than '', Num lo]\<rparr>
    \<and> createDecimal f lo hi i
        = Inl \<lparr>errType = TooSmall, msg = [Num i, Text '': Must not be less than '', Num lo]\<rparr>)
   \<and> (lo \<le> hi \<and> hi < i \<longrightarrow>
      createInt f lo hi i
        = Inl \<lparr>errType = TooBig, msg = [Num i, Text '': Must not be greater than '', Num hi]\<rparr>
    \<and> createDecimal f lo hi i
        = Inl \<lparr>errType = TooBig, msg = [Num i, Text '': Must not be greater than '', Num hi]\<rparr>)
   \<and> (lo \<le> i \<and> i \<le> hi \<and> isInteger i \<longrightarrow>
      createInt f lo hi i = Inr i \<and> createDecimal f lo hi i = Inr i)
   \<and> (lo \<le> i \<and> i \<le> hi \<and> \<not> isInteger i \<longrightarrow>
      createInt f lo hi i = Inl \<lparr>errType = NotInt, msg = [Num i, Text '': Must be integer'']\<rparr>)
   \<and> (i < 1 \<longrightarrow> (\<exists>m. UnitQuantity_create f i = Inl \<lparr>errType = TooSmall, msg = m\<rparr>))
   \<and> (1000 < i \<longrightarrow> (\<exists>m. UnitQuantity_create f i = Inl \<lparr>errType = TooBig, msg = m\<rparr>))
   \<and> (1 \<le> i \<and> i \<le> 1000 \<and> isInteger i \<longrightarrow>
        UnitQuantity_create f i = Inr \<lparr>quantityType = Unit, quantity = i\<rparr>)
   \<and> (i < 5 / 100 \<longrightarrow> (\<exists>m. KilogramQuantity_create f i = Inl \<lparr>errType = TooSmall, msg = m\<rparr>))
   \<and> (100 < i \<longrightarrow> (\<exists>m. KilogramQuantity_create f i = Inl \<lparr>errType = TooBig, msg = m\<rparr>))
   \<and> (5 / 100 \<le> i \<and> i \<le> 100 \<and> isInteger i \<longrightarrow>
        KilogramQuantity_create f i = Inr \<lparr>quantityType = Kilogram, quantity = i\<rparr>)
   \<and> (i < 0 \<longrightarrow> (\<exists>m. Price_create i = Inl \<lparr>errType = TooSmall, msg = m\<rparr>))
   \<and> (1000 < i \<longrightarrow> (\<exists>m. Price_create i = Inl \<lparr>errType = TooBig, msg = m\<rparr>))
   \<and> (0 \<le> i \<and> i \<le> 1000 \<and> isInteger i \<longrightarrow> Price_create i = Inr i)
   \<and> (i < 0 \<longrightarrow> (\<exists>m. BillingAmount_create i = Inl \<lparr>errType = TooSmall, msg = m\<rparr>))
   \<and> (10000 < i \<longrightarrow> (\<exists>m. BillingAmount_create i = Inl \<lparr>errType = TooBig, msg = m\<rparr>))
   \<and> (0 \<le> i \<and> i \<le> 10000 \<and> isInteger i \<longrightarrow> BillingAmount_create i = Inr i)"
  by (simp add: createInt_def createDecimal_def UnitQuantity_create_def
      KilogramQuantity_create_integral Price_create_def BillingAmount_create_def)
    (simp add: KilogramQuantity_create_def createDecimal_def)

theorem C6_bounded_constructors_witness:
  "(0::rat) < 1
   \<and> createInt ''UnitQuantity'' 1 1000 0
     = Inl \<lparr>errType = TooSmall, msg = [Num 0, Text '': Must not be less than '', Num 1]\<rparr>
   \<and> (0::rat) \<le> 1000 \<and> (1000::rat) < 1500
   \<and> createDecimal ''Price'' 0 1000 1500
     = Inl \<lparr>errType = TooBig, msg = [Num 1500, Text '': Must not be greater than '', Num 1000]\<rparr>
   \<and> (0::rat) \<le> 500 \<and> (500::rat) \<le> 1000 \<and> isInteger 500
   \<and> createDecimal ''Price'' 0 1000 500 = Inr 500
   \<and> (1::rat) \<le> 3 / 2 \<and> (3 / 2::rat) \<le> 1000 \<and> \<not> isInteger (3 / 2)
   \<and> createInt ''UnitQuantity'' 1 1000 (3 / 2)
     = Inl \<lparr>errType = NotInt, msg = [Num (3 / 2), Text '': Must be integer'']\<rparr>
   \<and> UnitQuantity_create ''OrderQuantity'' 500 = Inr \<lparr>quantityType = Unit, quantity = 500\<rparr>
   \<and> KilogramQuantity_create ''OrderQuantity'' 3 = Inr \<lparr>quantityType = Kilogram, quantity = 3\<rparr>
   \<and> BillingAmount_create 10000 = Inr 10000"
proof -
  have ints: "isInteger 500" "isInteger 10000" "isInteger 3" "\<not> isInteger (3 / 2)"
    by code_simp+
  show ?thesis
    using C6_bounded_constructors [of 0 1 "''UnitQuantity''" 1000]
      C6_bounded_constructors [of 1500 0 "''Price''" 1000]
      C6_bounded_constructors [of 500 0 "''Price''" 1000]
      C6_bounded_constructors [of "3 / 2" 1 "''UnitQuantity''" 1000]
      C6_bounded_constructors [of 500 1 "''OrderQuantity''" 1000]
      C6_bounded_constructors [of 3 1 "''OrderQuantity''" 1000]
      C6_bounded_constructors [of 10000 0 "''BillingAmount''" 10000]
      ints
    by simp
qed

text \<open>
  C8. \<open>createStringOption\<close> answers an empty input with the absent result, a too long one
  with \<open>TooLong\<close>, and returns any other string; the claim goes on: the validation step
  uses it for the optional address lines, so that an address whose lines 2 to 4 are empty
  validates, with those lines absent. \<open>toAddress\<close> builds the lines 2 to 4 with
  \<open>String50.create\<close>, as it does line 1, so such an address is refused with a validation
  error, although \<open>Address\<close> declares the three lines as \<open>String50 | null\<close>. The evaluation of
  the code at such an address, and of \<open>createStringOption\<close>:
\<close>

theorem C8_toAddress_empty_optional_lines:
  "toAddress \<lparr>u_isValidated = True, u_addressLine1 = ''1 Main Street'', u_addressLine2 = '''',
      u_addressLine3 = '''', u_addressLine4 = '''', u_city = ''Springfield'',
      u_zipCode = ''12345'', u_state = ''IL'', u_country = ''US''\<rparr>
     = Inl \<lparr>errType = Validation,
            msg = [Text ''AddressLine2'', Text '' must not be null or undefined or empty'']\<rparr>
   \<and> createStringOption ''AddressLine2'' 50 '''' = Inr None
   \<and> createStringOption ''AddressLine2'' 50 ''Flat 2'' = Inr (Some ''Flat 2'')
   \<and> createStringOption ''AddressLine2'' 2 ''Flat 2''
     = Inl \<lparr>errType = TooLong,
            msg = [Text ''AddressLine2'', Text '' must not be more than '', Num 2, Text '' chars'']\<rparr>"
  by code_simp

section \<open>Properties of the creation of events\<close>

text \<open>
  C2. For every priced order and every optional acknowledgment event, the list that
  \<open>createEvents\<close> returns always contains the order-placed event; it contains a
  billable-order-placed event if and only if the amount to bill is greater than zero; it
  contains the acknowledgment event if and only if one was passed in; and the order is
  fixed: the acknowledgment event, then the order-placed event, then the billing event
  (the ranks of the events, 0 for an acknowledgment, 1 for the order placed, 2 for the
  billing event, increase strictly along the list).
\<close>

theorem C2_createEvents:
  "createEvents po ackOpt =
     (case ackOpt of None \<Rightarrow> [] | Some a \<Rightarrow> [OrderAcknowledgmentSentEvent a])
     @ [OrderPlacedEvent po]
     @ (if 0 < p_amountToBill po
        then [BillableOrderPlacedEvent \<lparr>b_orderId = p_orderId po,
                b_billingAddress = p_billingAddress po, b_amountToBill = p_amountToBill po\<rparr>]
        else [])
   \<and> OrderPlacedEvent po \<in> set (createEvents po ackOpt)
   \<and> ((\<exists>b. BillableOrderPlacedEvent b \<in> set (createEvents po ackOpt)) = (0 < p_amountToBill po))
   \<and> (\<forall>a. (OrderAcknowledgmentSentEvent a \<in> set (createEvents po ackOpt)) = (ackOpt = Some a))
   \<and> sorted_wrt (<) (map eventRank (createEvents po ackOpt))"
  by (cases ackOpt)
    (auto simp add: createEvents_def listOfOption_def createOrderPlacedEvent_def
      createBillingEvent_def BillingAmount_value_def eventRank_def)

theorem C2_createEvents_witness:
  "createEvents (samplePricedOrder 50 []) (Some \<lparr>a_orderId = ''O1'', a_emailAddress = ''ada@example.org''\<rparr>)
     = [OrderAcknowledgmentSentEvent \<lparr>a_orderId = ''O1'', a_emailAddress = ''ada@example.org''\<rparr>,
        OrderPlacedEvent (samplePricedOrder 50 []),
        BillableOrderPlacedEvent \<lparr>b_orderId = ''O1'', b_billingAddress = sampleAddress,
          b_amountToBill = 50\<rparr>]
   \<and> createEvents (samplePricedOrder 0 []) None = [OrderPlacedEvent (samplePricedOrder 0 [])]"
  using C2_createEvents [of "samplePricedOrder 50 []"
      "Some \<lparr>a_orderId = ''O1'', a_emailAddress = ''ada@example.org''\<rparr>"]
    C2_createEvents [of "samplePricedOrder 0 []" None]
  by (simp add: samplePricedOrder_def)

section \<open>Collected results\<close>

text \<open>The first error that \<open>splitErr\<close> collects is that of the first result that is one.\<close>

lemma splitErr_Nil: "splitErr [] = ([], [])"
  by (simp add: splitErr_def)

lemma splitErr_Inl: "splitErr (Inl e # rs) = (fst (splitErr rs), e # snd (splitErr rs))"
  by (simp add: splitErr_def)

lemma splitErr_Inr: "splitErr (Inr v # rs) = (v # fst (splitErr rs), snd (splitErr rs))"
  by (simp add: splitErr_def)

lemma splitErr_find_None:
  "List.find isl rs = None \<Longrightarrow> splitErr rs = (map projr rs, [])"
proof (induction rs)
  case Nil
  show ?case by (simp add: splitErr_Nil)
next
  case (Cons r rs)
  then show ?case
    by (cases r) (simp_all add: splitErr_Inr)
qed

lemma splitErr_find_Some:
  "List.find isl rs = Some r \<Longrightarrow> \<exists>e es. r = Inl e \<and> snd (splitErr rs) = e # es"
proof (induction rs)
  case Nil
  then show ?case by simp
next
  case (Cons x xs)
  then show ?case
    by (cases x) (auto simp add: splitErr_Inl splitErr_Inr)
qed

lemma find_isl_None: "List.find isl rs = None \<Longrightarrow> r \<in> set rs \<Longrightarrow> \<not> isl r"
  by (simp add: find_None_iff)

lemma find_isl_cases:
  obtains (none) "List.find isl rs = None" | (some) e where "List.find isl rs = Some (Inl e)"
proof (cases "List.find isl rs")
  case None
  then show ?thesis by (rule none)
next
  case (Some r)
  then have "isl r"
    by (auto simp add: find_Some_iff)
  then obtain e where "r = Inl e"
    by (cases r) simp_all
  with Some show ?thesis
    by (auto intro: some)
qed

lemma createDecimal_Inr: "createDecimal f lo hi v = Inr x \<Longrightarrow> x = v \<and> lo \<le> v \<and> v \<le> hi"
  by (simp add: createDecimal_def split: if_splits)

section \<open>Properties of the pricing step\<close>

lemma mapCalls_toPricedOrderLine:
  "mapCalls (toPricedOrderLine dmul g) ls =
     (map (\<lambda>l. fst (toPricedOrderLine dmul g l)) ls, map (\<lambda>l. Call_getProductPrice (v_productCode l)) ls)"
  by (induction ls) (simp_all add: mapCalls_def toPricedOrderLine_def Let_def)

lemma priceOrder_first_error:
  assumes "List.find isl (map (\<lambda>l. fst (toPricedOrderLine dmul g l)) (v_lines vo)) = Some (Inl e)"
  shows "priceOrder dmul g vo =
           (Inl (createPricingError (msg e)),
            map (\<lambda>l. Call_getProductPrice (v_productCode l)) (v_lines vo))"
proof -
  from splitErr_find_Some [OF assms] obtain es where
    "snd (splitErr (map (\<lambda>l. fst (toPricedOrderLine dmul g l)) (v_lines vo))) = e # es"
    by auto
  then obtain vs where
    "splitErr (map (\<lambda>l. fst (toPricedOrderLine dmul g l)) (v_lines vo)) = (vs, e # es)"
    by (cases "splitErr (map (\<lambda>l. fst (toPricedOrderLine dmul g l)) (v_lines vo))") simp
  then show ?thesis
    by (simp add: priceOrder_def mapCalls_toPricedOrderLine)
qed

lemma priceOrder_no_error:
  assumes "List.find isl (map (\<lambda>l. fst (toPricedOrderLine dmul g l)) (v_lines vo)) = None"
  shows "priceOrder dmul g vo =
           (case BillingAmount_sumPrices
                   (map p_linePrice (map (\<lambda>l. projr (fst (toPricedOrderLine dmul g l))) (v_lines vo))) of
              Inl e \<Rightarrow> Inl (createPricingError (msg e))
            | Inr amountToBill \<Rightarrow>
                Inr \<lparr>p_orderId = v_orderId vo, p_customerInfo = v_customerInfo vo,
                     p_shippingAddress = v_shippingAddress vo,
                     p_billingAddress = v_billingAddress vo,
                     p_amountToBill = amountToBill,
                     p_lines = map (\<lambda>l. projr (fst (toPricedOrderLine dmul g l))) (v_lines vo)\<rparr>,
            map (\<lambda>l. Call_getProductPrice (v_productCode l)) (v_lines vo))"
  using splitErr_find_None [OF assms]
  by (simp add: priceOrder_def mapCalls_toPricedOrderLine comp_def)

lemma toPricedOrderLine_result:
  "fst (toPricedOrderLine dmul g l) =
     (case Price_create (dmul (quantity (v_quantity l)) (g (v_productCode l))) of
        Inl e \<Rightarrow> Inl \<lparr>errType = Pricing, msg = msg e\<rparr>
      | Inr lp \<Rightarrow>
          Inr \<lparr>p_orderLineId = v_orderLineId l, p_productCode = v_productCode l,
               p_quantity = v_quantity l, p_linePrice = lp\<rparr>)"
  by (simp add: toPricedOrderLine_def Price_multiply_def Let_def)

lemma toPricedOrderLine_Inr:
  assumes "\<not> isl (fst (toPricedOrderLine dmul g l))"
  shows "projr (fst (toPricedOrderLine dmul g l)) =
           \<lparr>p_orderLineId = v_orderLineId l, p_productCode = v_productCode l,
            p_quantity = v_quantity l,
            p_linePrice = dmul (quantity (v_quantity l)) (g (v_productCode l))\<rparr>"
proof (cases "Price_create (dmul (quantity (v_quantity l)) (g (v_productCode l)))")
  case (Inl e)
  with assms show ?thesis
    by (simp add: toPricedOrderLine_result)
next
  case (Inr lp)
  then have "lp = dmul (quantity (v_quantity l)) (g (v_productCode l))"
    unfolding Price_create_def by (blast dest: createDecimal_Inr)
  with Inr show ?thesis
    by (simp add: toPricedOrderLine_result)
qed

lemma pricedLines_no_error:
  assumes "List.find isl (map (\<lambda>l. fst (toPricedOrderLine dmul g l)) (v_lines vo)) = None"
  shows "map (\<lambda>l. projr (fst (toPricedOrderLine dmul g l))) (v_lines vo)
           = map (\<lambda>l. \<lparr>p_orderLineId = v_orderLineId l, p_productCode = v_productCode l,
                        p_quantity = v_quantity l,
                        p_linePrice = dmul (quantity (v_quantity l)) (g (v_productCode l))\<rparr>)
               (v_lines vo)"
proof (rule map_cong [OF refl])
  fix l
  assume "l \<in> set (v_lines vo)"
  with find_isl_None [OF assms, of "fst (toPricedOrderLine dmul g l)"]
  have "\<not> isl (fst (toPricedOrderLine dmul g l))"
    by simp
  then show "projr (fst (toPricedOrderLine dmul g l))
           = \<lparr>p_orderLineId = v_orderLineId l, p_productCode = v_productCode l,
              p_quantity = v_quantity l,
              p_linePrice = dmul (quantity (v_quantity l)) (g (v_productCode l))\<rparr>"
    by (rule toPricedOrderLine_Inr)
qed

lemma priceOrder_all_lines_priced:
  assumes "List.find isl (map (\<lambda>l. fst (toPricedOrderLine dmul g l)) (v_lines vo)) = None"
  shows "fst (priceOrder dmul g vo) =
           (case BillingAmount_create
                   (sum_list (map (\<lambda>l. dmul (quantity (v_quantity l)) (g (v_productCode l)))
                                (v_lines vo))) of
              Inl e \<Rightarrow> Inl (createPricingError (msg e))
            | Inr amountToBill \<Rightarrow>
                Inr \<lparr>p_orderId = v_orderId vo, p_customerInfo = v_customerInfo vo,
                     p_shippingAddress = v_shippingAddress vo,
                     p_billingAddress = v_billingAddress vo,
                     p_amountToBill = amountToBill,
                     p_lines =
                       map (\<lambda>l. \<lparr>p_orderLineId = v_orderLineId l,
                                   p_productCode = v_productCode l,
                                   p_quantity = v_quantity l,
                                   p_linePrice = dmul (quantity (v_quantity l)) (g (v_productCode l))\<rparr>)
                         (v_lines vo)\<rparr>)"
  unfolding priceOrder_no_error [OF assms] pricedLines_no_error [OF assms]
  by (simp add: BillingAmount_sumPrices_def comp_def)

lemma createDecimal_Inr_integral: "createDecimal f lo hi v = Inr x \<Longrightarrow> isInteger v"
  by (simp add: createDecimal_def split: if_splits)

lemma isInteger_of_int: "isInteger (of_int n)"
  by (simp add: isInteger_def)

lemma isInteger_add:
  assumes "isInteger a" and "isInteger b"
  shows "isInteger (a + b)"
proof -
  from assms(1) have "of_int \<lfloor>a\<rfloor> = a"
    unfolding isInteger_def .
  then have a: "a = of_int \<lfloor>a\<rfloor>"
    by (rule sym)
  from assms(2) have "of_int \<lfloor>b\<rfloor> = b"
    unfolding isInteger_def .
  then have b: "b = of_int \<lfloor>b\<rfloor>"
    by (rule sym)
  have "isInteger (of_int (\<lfloor>a\<rfloor> + \<lfloor>b\<rfloor>) :: rat)"
    by (rule isInteger_of_int)
  then have "isInteger (of_int \<lfloor>a\<rfloor> + of_int \<lfloor>b\<rfloor> :: rat)"
    by (simp only: of_int_add)
  then show ?thesis
    using a b by simp
qed

lemma sum_list_integral:
  "(\<And>x. x \<in> set xs \<Longrightarrow> isInteger x \<and> 0 \<le> x) \<Longrightarrow> isInteger (sum_list xs) \<and> 0 \<le> sum_list xs"
proof (induction xs)
  case Nil
  show ?case
    using isInteger_of_int [of 0] by simp
next
  case (Cons x xs)
  then have "isInteger x \<and> 0 \<le> x" and "isInteger (sum_list xs) \<and> 0 \<le> sum_list xs"
    by simp_all
  then show ?case
    by (simp add: isInteger_add)
qed

lemma priced_line_integral:
  assumes "\<not> isl (fst (toPricedOrderLine dmul g l))"
  shows "isInteger (dmul (quantity (v_quantity l)) (g (v_productCode l)))
       \<and> 0 \<le> dmul (quantity (v_quantity l)) (g (v_productCode l))"
proof (cases "Price_create (dmul (quantity (v_quantity l)) (g (v_productCode l)))")
  case (Inl e)
  with assms show ?thesis
    by (simp add: toPricedOrderLine_result)
next
  case (Inr lp)
  then show ?thesis
    unfolding Price_create_def
    by (blast dest: createDecimal_Inr createDecimal_Inr_integral)
qed

text \<open>
  C7. In \<open>priceOrder\<close> the price of a line is the quantity times the unit price (the
  double product, \<open>dmul\<close>), checked against the bound of a price (0 to 1000): a violation
  is a \<open>PricingError\<close> with the message of the check, an integral product within the bound
  is the price of the line, and the price of a line that is priced is the product and
  within the bound. The first line that fails, in the order of the lines, decides the
  result of the order: a \<open>PricingError\<close> with that line's message. When no line fails the
  amount to bill is the sum of the line prices: a sum above 10000 is a \<open>PricingError\<close>
  although every line price is within its own bound, and any other sum is the amount to
  bill of the priced order.
\<close>

theorem C7_priceOrder_errors:
  "(dmul (quantity (v_quantity l)) (g (v_productCode l)) < 0 \<longrightarrow>
      fst (toPricedOrderLine dmul g l)
        = Inl \<lparr>errType = Pricing,
               msg = [Num (dmul (quantity (v_quantity l)) (g (v_productCode l))),
                      Text '': Must not be less than '', Num 0]\<rparr>)
   \<and> (1000 < dmul (quantity (v_quantity l)) (g (v_productCode l)) \<longrightarrow>
      fst (toPricedOrderLine dmul g l)
        = Inl \<lparr>errType = Pricing,
               msg = [Num (dmul (quantity (v_quantity l)) (g (v_productCode l))),
                      Text '': Must not be greater than '', Num 1000]\<rparr>)
   \<and> (0 \<le> dmul (quantity (v_quantity l)) (g (v_productCode l))
        \<and> dmul (quantity (v_quantity l)) (g (v_productCode l)) \<le> 1000
        \<and> isInteger (dmul (quantity (v_quantity l)) (g (v_productCode l))) \<longrightarrow>
      fst (toPricedOrderLine dmul g l)
        = Inr \<lparr>p_orderLineId = v_orderLineId l, p_productCode = v_productCode l,
               p_quantity = v_quantity l,
               p_linePrice = dmul (quantity (v_quantity l)) (g (v_productCode l))\<rparr>)
   \<and> (\<forall>pl. fst (toPricedOrderLine dmul g l) = Inr pl \<longrightarrow>
          p_linePrice pl = dmul (quantity (v_quantity l)) (g (v_productCode l))
          \<and> 0 \<le> p_linePrice pl \<and> p_linePrice pl \<le> 1000)
   \<and> (\<forall>e. List.find isl (pricedLineResults dmul g vo) = Some (Inl e) \<longrightarrow>
          fst (priceOrder dmul g vo) = Inl \<lparr>errType = Pricing, msg = msg e\<rparr>)
   \<and> (List.find isl (pricedLineResults dmul g vo) = None
        \<and> 10000 < sum_list (map (\<lambda>l. dmul (quantity (v_quantity l)) (g (v_productCode l)))
                               (v_lines vo))
       \<longrightarrow>
          fst (priceOrder dmul g vo)
            = Inl \<lparr>errType = Pricing,
                   msg = [Num (sum_list (map (\<lambda>l. dmul (quantity (v_quantity l))
                                                    (g (v_productCode l)))
                                          (v_lines vo))),
                          Text '': Must not be greater than '', Num 10000]\<rparr>)
   \<and> (List.find isl (pricedLineResults dmul g vo) = None
        \<and> sum_list (map (\<lambda>l. dmul (quantity (v_quantity l)) (g (v_productCode l)))
                       (v_lines vo)) \<le> 10000
       \<longrightarrow>
          (\<exists>po. fst (priceOrder dmul g vo) = Inr po
             \<and> p_amountToBill po
                 = sum_list (map (\<lambda>l. dmul (quantity (v_quantity l)) (g (v_productCode l)))
                              (v_lines vo))))
   \<and> (\<forall>po. fst (priceOrder dmul g vo) = Inr po \<longrightarrow>
          p_amountToBill po
            = sum_list (map (\<lambda>l. dmul (quantity (v_quantity l)) (g (v_productCode l)))
                         (v_lines vo))
          \<and> 0 \<le> p_amountToBill po \<and> p_amountToBill po \<le> 10000)"
proof (intro conjI allI impI)
  let ?v = "dmul (quantity (v_quantity l)) (g (v_productCode l))"
  let ?total = "sum_list (map (\<lambda>l. dmul (quantity (v_quantity l)) (g (v_productCode l)))
                            (v_lines vo))"
  show "fst (toPricedOrderLine dmul g l)
          = Inl \<lparr>errType = Pricing, msg = [Num ?v, Text '': Must not be less than '', Num 0]\<rparr>"
    if "?v < 0"
    using that by (simp add: toPricedOrderLine_result Price_create_def createDecimal_def)
  show "fst (toPricedOrderLine dmul g l)
          = Inl \<lparr>errType = Pricing, msg = [Num ?v, Text '': Must not be greater than '', Num 1000]\<rparr>"
    if "1000 < ?v"
    using that by (simp add: toPricedOrderLine_result Price_create_def createDecimal_def)
  show "fst (toPricedOrderLine dmul g l)
          = Inr \<lparr>p_orderLineId = v_orderLineId l, p_productCode = v_productCode l,
                 p_quantity = v_quantity l, p_linePrice = ?v\<rparr>"
    if "0 \<le> ?v \<and> ?v \<le> 1000 \<and> isInteger ?v"
    using that by (simp add: toPricedOrderLine_result Price_create_def createDecimal_def)
  have line: "p_linePrice pl = ?v \<and> 0 \<le> ?v \<and> ?v \<le> 1000"
    if "fst (toPricedOrderLine dmul g l) = Inr pl" for pl
  proof (cases "Price_create ?v")
    case (Inl e)
    with that show ?thesis
      by (simp add: toPricedOrderLine_result)
  next
    case (Inr lp)
    then have "lp = ?v \<and> 0 \<le> ?v \<and> ?v \<le> 1000"
      unfolding Price_create_def by (rule createDecimal_Inr)
    with that Inr show ?thesis
      by (auto simp add: toPricedOrderLine_result)
  qed
  show "p_linePrice pl = ?v" "0 \<le> p_linePrice pl" "p_linePrice pl \<le> 1000"
    if "fst (toPricedOrderLine dmul g l) = Inr pl" for pl
    using line [OF that] by simp_all
  show "fst (priceOrder dmul g vo) = Inl \<lparr>errType = Pricing, msg = msg e\<rparr>"
    if "List.find isl (pricedLineResults dmul g vo) = Some (Inl e)" for e
    using priceOrder_first_error [of dmul g vo e] that
    by (simp add: pricedLineResults_def createPricingError_def)
  show "fst (priceOrder dmul g vo)
          = Inl \<lparr>errType = Pricing, msg = [Num ?total, Text '': Must not be greater than '', Num 10000]\<rparr>"
    if "List.find isl (pricedLineResults dmul g vo) = None \<and> 10000 < ?total"
  proof -
    from that have none: "List.find isl (map (\<lambda>l. fst (toPricedOrderLine dmul g l)) (v_lines vo)) = None"
      and big: "10000 < ?total"
      by (simp_all add: pricedLineResults_def)
    from big show ?thesis
      unfolding priceOrder_all_lines_priced [OF none]
      by (simp add: BillingAmount_create_def createDecimal_def createPricingError_def)
  qed
  show "\<exists>po. fst (priceOrder dmul g vo) = Inr po \<and> p_amountToBill po = ?total"
    if "List.find isl (pricedLineResults dmul g vo) = None \<and> ?total \<le> 10000"
  proof -
    from that have none: "List.find isl (map (\<lambda>l. fst (toPricedOrderLine dmul g l)) (v_lines vo)) = None"
      and small: "?total \<le> 10000"
      by (simp_all add: pricedLineResults_def)
    have "isInteger x \<and> 0 \<le> x"
      if "x \<in> set (map (\<lambda>l. dmul (quantity (v_quantity l)) (g (v_productCode l))) (v_lines vo))"
      for x
    proof -
      from that obtain l' where l': "l' \<in> set (v_lines vo)"
        and x: "x = dmul (quantity (v_quantity l')) (g (v_productCode l'))"
        by auto
      from find_isl_None [OF none, of "fst (toPricedOrderLine dmul g l')"] l'
      have "\<not> isl (fst (toPricedOrderLine dmul g l'))"
        by simp
      then show ?thesis
        unfolding x by (rule priced_line_integral)
    qed
    then have "isInteger ?total \<and> 0 \<le> ?total"
      by (rule sum_list_integral)
    with small show ?thesis
      unfolding priceOrder_all_lines_priced [OF none]
      by (simp add: BillingAmount_create_def createDecimal_def)
  qed
  have total: "p_amountToBill po = ?total \<and> 0 \<le> ?total \<and> ?total \<le> 10000"
    if "fst (priceOrder dmul g vo) = Inr po" for po
  proof (cases "pricedLineResults dmul g vo" rule: find_isl_cases)
    case (some e)
    from priceOrder_first_error [of dmul g vo e] some that show ?thesis
      by (simp add: pricedLineResults_def)
  next
    case none
    then have none': "List.find isl (map (\<lambda>l. fst (toPricedOrderLine dmul g l)) (v_lines vo)) = None"
      by (simp add: pricedLineResults_def)
    show ?thesis
    proof (cases "BillingAmount_create ?total")
      case (Inl e)
      with that show ?thesis
        unfolding priceOrder_all_lines_priced [OF none']
        by simp
    next
      case (Inr a)
      then have "a = ?total \<and> 0 \<le> ?total \<and> ?total \<le> 10000"
        unfolding BillingAmount_create_def by (rule createDecimal_Inr)
      with that Inr show ?thesis
        unfolding priceOrder_all_lines_priced [OF none']
        by auto
    qed
  qed
  show "p_amountToBill po = ?total" "0 \<le> p_amountToBill po" "p_amountToBill po \<le> 10000"
    if "fst (priceOrder dmul g vo) = Inr po" for po
    using total [OF that] by simp_all
qed

theorem C7_priceOrder_errors_witness:
  "fst (toPricedOrderLine exactMul samplePrice (widgetLine ''L1'' 500))
     = Inl \<lparr>errType = Pricing,
            msg = [Num 2500, Text '': Must not be greater than '', Num 1000]\<rparr>
   \<and> fst (toPricedOrderLine exactMul samplePrice (widgetLine ''L1'' 10))
     = Inr (pricedWidgetLine ''L1'' 10 50)
   \<and> fst (priceOrder exactMul samplePrice
            (sampleValidatedOrder
               [widgetLine ''L1'' 10, widgetLine ''L2'' 500, widgetLine ''L3'' 900]))
     = Inl \<lparr>errType = Pricing,
            msg = [Num 2500, Text '': Must not be greater than '', Num 1000]\<rparr>
   \<and> fst (priceOrder exactMul samplePrice
            (sampleValidatedOrder (map (\<lambda>lineId. widgetLine lineId 200)
               [''L1'', ''L2'', ''L3'', ''L4'', ''L5'', ''L6'', ''L7'', ''L8'', ''L9'', ''L10'',
                ''L11''])))
     = Inl \<lparr>errType = Pricing,
            msg = [Num 11000, Text '': Must not be greater than '', Num 10000]\<rparr>
   \<and> p_amountToBill (projr (fst (priceOrder exactMul samplePrice
            (sampleValidatedOrder [widgetLine ''L1'' 10, widgetLine ''L2'' 20])))) = 150
   \<and> 1000 < 7 * sampleDouble
   \<and> fst (toPricedOrderLine roundingMul doublePrice (widgetLine ''L1'' 7))
     = Inr (pricedWidgetLine ''L1'' 7 1000)"
proof -
  let ?bad = "sampleValidatedOrder [widgetLine ''L1'' 10, widgetLine ''L2'' 500, widgetLine ''L3'' 900]"
  let ?big = "sampleValidatedOrder (map (\<lambda>lineId. widgetLine lineId 200)
               [''L1'', ''L2'', ''L3'', ''L4'', ''L5'', ''L6'', ''L7'', ''L8'', ''L9'', ''L10'',
                ''L11''])"
  let ?good = "sampleValidatedOrder [widgetLine ''L1'' 10, widgetLine ''L2'' 20]"
  let ?e = "\<lparr>errType = Pricing, msg = [Num 2500, Text '': Must not be greater than '', Num 1000]\<rparr>"
  note line_bad = C7_priceOrder_errors [where l = "widgetLine ''L1'' 500" and dmul = exactMul
      and g = samplePrice and vo = "?bad"]
  note line_good = C7_priceOrder_errors [where l = "widgetLine ''L1'' 10" and dmul = exactMul
      and g = samplePrice and vo = "?good"]
  note order_big = C7_priceOrder_errors [where l = "widgetLine ''L1'' 10" and dmul = exactMul
      and g = samplePrice and vo = "?big"]
  have v_bad: "exactMul (quantity (v_quantity (widgetLine ''L1'' 500)))
                 (samplePrice (v_productCode (widgetLine ''L1'' 500))) = 2500"
    by code_simp
  have v_good: "exactMul (quantity (v_quantity (widgetLine ''L1'' 10)))
                 (samplePrice (v_productCode (widgetLine ''L1'' 10))) = 50"
    by code_simp
  have int_good: "isInteger 50"
    by code_simp
  have l_good: "\<lparr>p_orderLineId = v_orderLineId (widgetLine ''L1'' 10),
                 p_productCode = v_productCode (widgetLine ''L1'' 10),
                 p_quantity = v_quantity (widgetLine ''L1'' 10), p_linePrice = 50\<rparr>
                = pricedWidgetLine ''L1'' 10 50"
    by code_simp
  have find_bad: "List.find isl (pricedLineResults exactMul samplePrice ?bad) = Some (Inl ?e)"
    by code_simp
  have find_big: "List.find isl (pricedLineResults exactMul samplePrice ?big) = None"
    by code_simp
  have total_big: "sum_list (map (\<lambda>l. exactMul (quantity (v_quantity l)) (samplePrice (v_productCode l)))
                     (v_lines ?big)) = 11000"
    by code_simp
  have find_good: "List.find isl (pricedLineResults exactMul samplePrice ?good) = None"
    by code_simp
  have total_good: "sum_list (map (\<lambda>l. exactMul (quantity (v_quantity l)) (samplePrice (v_productCode l)))
                     (v_lines ?good)) = 150"
    by code_simp
  have c1: "fst (toPricedOrderLine exactMul samplePrice (widgetLine ''L1'' 500)) = Inl ?e"
    using line_bad unfolding v_bad by simp
  have c2: "fst (toPricedOrderLine exactMul samplePrice (widgetLine ''L1'' 10))
              = Inr (pricedWidgetLine ''L1'' 10 50)"
    using line_good int_good unfolding v_good l_good by simp
  have c3: "fst (priceOrder exactMul samplePrice ?bad) = Inl ?e"
    using line_bad find_bad by simp
  have c4: "fst (priceOrder exactMul samplePrice ?big)
              = Inl \<lparr>errType = Pricing,
                     msg = [Num 11000, Text '': Must not be greater than '', Num 10000]\<rparr>"
    using order_big find_big unfolding total_big by simp
  have c5: "p_amountToBill (projr (fst (priceOrder exactMul samplePrice ?good))) = 150"
    using line_good find_good unfolding total_good by auto
  have c6: "1000 < 7 * sampleDouble"
    by code_simp
  note line_round = C7_priceOrder_errors [where l = "widgetLine ''L1'' 7" and dmul = roundingMul
      and g = doublePrice and vo = "?good"]
  have v_round: "roundingMul (quantity (v_quantity (widgetLine ''L1'' 7)))
                   (doublePrice (v_productCode (widgetLine ''L1'' 7))) = 1000"
    by code_simp
  have int_round: "isInteger 1000"
    by code_simp
  have l_round: "\<lparr>p_orderLineId = v_orderLineId (widgetLine ''L1'' 7),
                  p_productCode = v_productCode (widgetLine ''L1'' 7),
                  p_quantity = v_quantity (widgetLine ''L1'' 7), p_linePrice = 1000\<rparr>
                 = pricedWidgetLine ''L1'' 7 1000"
    by code_simp
  have c7: "fst (toPricedOrderLine roundingMul doublePrice (widgetLine ''L1'' 7))
              = Inr (pricedWidgetLine ''L1'' 7 1000)"
    using line_round int_round unfolding v_round l_round by simp
  from c1 c2 c3 c4 c5 c6 c7 show ?thesis
    by (intro conjI)
qed

text \<open>
  C9. \<open>priceOrder\<close> is pure: applied twice to the same validated order with the same price
  function it yields identical priced orders. In the model \<open>priceOrder\<close> is a function of
  its arguments and reads nothing else, and the calls it makes are part of what it
  returns; the theorem says more: what it returns (result and calls) is determined by the
  order and by the prices of the product codes of the order's lines, so two price
  functions that agree on these give the same priced order. The claim is the case of one
  price function.
\<close>

theorem C9_priceOrder_deterministic:
  assumes "\<forall>l \<in> set (v_lines vo). g (v_productCode l) = g' (v_productCode l)"
  shows "priceOrder dmul g vo = priceOrder dmul g' vo"
proof -
  have "toPricedOrderLine dmul g l = toPricedOrderLine dmul g' l" if "l \<in> set (v_lines vo)" for l
    using assms that by (simp add: toPricedOrderLine_def)
  then have "mapCalls (toPricedOrderLine dmul g) (v_lines vo) = mapCalls (toPricedOrderLine dmul g') (v_lines vo)"
    by (simp add: mapCalls_def cong: map_cong)
  then show ?thesis
    by (simp add: priceOrder_def)
qed

theorem C9_priceOrder_deterministic_witness:
  "priceOrder exactMul samplePrice (sampleValidatedOrder [widgetLine ''L1'' 10, widgetLine ''L2'' 20])
     = priceOrder exactMul otherPrice (sampleValidatedOrder [widgetLine ''L1'' 10, widgetLine ''L2'' 20])"
proof -
  let ?good = "sampleValidatedOrder [widgetLine ''L1'' 10, widgetLine ''L2'' 20]"
  have "\<forall>l \<in> set (v_lines ?good). samplePrice (v_productCode l) = otherPrice (v_productCode l)"
    by code_simp
  then show ?thesis
    by (rule C9_priceOrder_deterministic)
qed

text \<open>
  C10. When \<open>priceOrder\<close> succeeds, the priced order has the order id, the customer
  information, the shipping address and the billing address of the validated order, and
  as many lines in the same order, each with the line id, the product code and the
  quantity of the validated line it comes from; what is added is the price of each line
  (the double product \<open>dmul\<close> of quantity and unit price) and the amount to bill (the sum
  of the line prices).
\<close>

theorem C10_priceOrder_frame:
  assumes "priceOrder dmul g vo = (Inr po, calls)"
  shows "p_orderId po = v_orderId vo
       \<and> p_customerInfo po = v_customerInfo vo
       \<and> p_shippingAddress po = v_shippingAddress vo
       \<and> p_billingAddress po = v_billingAddress vo
       \<and> length (p_lines po) = length (v_lines vo)
       \<and> map p_orderLineId (p_lines po) = map v_orderLineId (v_lines vo)
       \<and> map p_productCode (p_lines po) = map v_productCode (v_lines vo)
       \<and> map p_quantity (p_lines po) = map v_quantity (v_lines vo)
       \<and> map p_linePrice (p_lines po)
           = map (\<lambda>l. dmul (quantity (v_quantity l)) (g (v_productCode l))) (v_lines vo)
       \<and> p_amountToBill po = sum_list (map p_linePrice (p_lines po))"
proof -
  let ?rs = "map (\<lambda>l. fst (toPricedOrderLine dmul g l)) (v_lines vo)"
  let ?ls = "map (\<lambda>l. projr (fst (toPricedOrderLine dmul g l))) (v_lines vo)"
  have none: "List.find isl ?rs = None"
  proof (cases ?rs rule: find_isl_cases)
    case none
    then show ?thesis .
  next
    case (some e)
    from priceOrder_first_error [OF some] assms show ?thesis
      by simp
  qed
  have ok: "\<not> isl (fst (toPricedOrderLine dmul g l))" if "l \<in> set (v_lines vo)" for l
    using find_isl_None [OF none, of "fst (toPricedOrderLine dmul g l)"] that by simp
  have ls: "?ls = map (\<lambda>l. \<lparr>p_orderLineId = v_orderLineId l, p_productCode = v_productCode l,
            p_quantity = v_quantity l,
            p_linePrice = dmul (quantity (v_quantity l)) (g (v_productCode l))\<rparr>) (v_lines vo)"
    by (rule map_cong [OF refl]) (simp add: toPricedOrderLine_Inr ok)
  from priceOrder_no_error [OF none] assms obtain a where
    sum: "BillingAmount_sumPrices (map p_linePrice ?ls) = Inr a" and
    po: "po = \<lparr>p_orderId = v_orderId vo, p_customerInfo = v_customerInfo vo,
              p_shippingAddress = v_shippingAddress vo,
              p_billingAddress = v_billingAddress vo,
              p_amountToBill = a, p_lines = ?ls\<rparr>"
    by (cases "BillingAmount_sumPrices (map p_linePrice ?ls)") auto
  from sum have a: "a = sum_list (map p_linePrice ?ls)"
    unfolding BillingAmount_sumPrices_def BillingAmount_create_def
    by (blast dest: createDecimal_Inr)
  have fields: "p_lines po = ?ls" "p_amountToBill po = a" "p_orderId po = v_orderId vo"
    "p_customerInfo po = v_customerInfo vo" "p_shippingAddress po = v_shippingAddress vo"
    "p_billingAddress po = v_billingAddress vo"
    by (simp_all add: po)
  show ?thesis
    unfolding fields a by (simp add: ls comp_def)
qed

theorem C10_priceOrder_frame_witness:
  "p_orderId (projr (fst (priceOrder exactMul samplePrice
       (sampleValidatedOrder [widgetLine ''L1'' 10, widgetLine ''L2'' 20])))) = ''O1''
   \<and> map p_orderLineId (p_lines (projr (fst (priceOrder exactMul samplePrice
       (sampleValidatedOrder [widgetLine ''L1'' 10, widgetLine ''L2'' 20]))))) = [''L1'', ''L2'']
   \<and> map p_linePrice (p_lines (projr (fst (priceOrder exactMul samplePrice
       (sampleValidatedOrder [widgetLine ''L1'' 10, widgetLine ''L2'' 20]))))) = [50, 100]
   \<and> p_amountToBill (projr (fst (priceOrder exactMul samplePrice
       (sampleValidatedOrder [widgetLine ''L1'' 10, widgetLine ''L2'' 20])))) = 150
   \<and> 1000 < 7 * sampleDouble
   \<and> map p_linePrice (p_lines (projr (fst (priceOrder roundingMul doublePrice
       (sampleValidatedOrder [widgetLine ''L1'' 7]))))) = [1000]
   \<and> p_amountToBill (projr (fst (priceOrder roundingMul doublePrice
       (sampleValidatedOrder [widgetLine ''L1'' 7])))) = 1000"
proof -
  let ?good = "sampleValidatedOrder [widgetLine ''L1'' 10, widgetLine ''L2'' 20]"
  let ?po = "projr (fst (priceOrder exactMul samplePrice ?good))"
  let ?seven = "sampleValidatedOrder [widgetLine ''L1'' 7]"
  let ?po7 = "projr (fst (priceOrder roundingMul doublePrice ?seven))"
  have "priceOrder exactMul samplePrice ?good = (Inr ?po, snd (priceOrder exactMul samplePrice ?good))"
    by code_simp
  note frame = C10_priceOrder_frame [OF this]
  have "priceOrder roundingMul doublePrice ?seven
          = (Inr ?po7, snd (priceOrder roundingMul doublePrice ?seven))"
    by code_simp
  note frame7 = C10_priceOrder_frame [OF this]
  have inputs: "v_orderId ?good = ''O1''" "map v_orderLineId (v_lines ?good) = [''L1'', ''L2'']"
    "map (\<lambda>l. exactMul (quantity (v_quantity l)) (samplePrice (v_productCode l))) (v_lines ?good) = [50, 100]"
    "map (\<lambda>l. roundingMul (quantity (v_quantity l)) (doublePrice (v_productCode l))) (v_lines ?seven)
       = [1000]"
    by code_simp+
  have exact: "1000 < 7 * sampleDouble"
    by code_simp
  from frame frame7 exact show ?thesis
    unfolding inputs by simp
qed

section \<open>Properties of the validation step and of the workflow\<close>

lemma splitErr_first:
  "splitErr rs = (vs, es) \<Longrightarrow>
     (if 0 < length es then Inl (es ! 0) else Inr vs)
       = (case List.find isl rs of Some r \<Rightarrow> Inl (projl r) | None \<Rightarrow> Inr (map projr rs))"
proof (cases rs rule: find_isl_cases)
  case none
  assume "splitErr rs = (vs, es)"
  with splitErr_find_None [OF none] none show ?thesis
    by simp
next
  case (some e)
  assume "splitErr rs = (vs, es)"
  with splitErr_find_Some [OF some] some show ?thesis
    by auto
qed

lemma validateOrder_steps:
  "validateOrder cp ca uo =
     (case toOrderId (u_orderId uo) of
        Inl e \<Rightarrow> (Inl e, [])
      | Inr oid \<Rightarrow>
     (case toCustomerInfo (u_customerInfo uo) of
        Inl e \<Rightarrow> (Inl e, [])
      | Inr ci \<Rightarrow>
     (case fst (toCheckedAddress ca (u_shippingAddress uo)) of
        Inl e \<Rightarrow> (Inl e, [Call_checkAddressExists (u_shippingAddress uo)])
      | Inr csa \<Rightarrow>
     (case toAddress csa of
        Inl e \<Rightarrow> (Inl e, [Call_checkAddressExists (u_shippingAddress uo)])
      | Inr sa \<Rightarrow>
     (case fst (toCheckedAddress ca (u_billingAddress uo)) of
        Inl e \<Rightarrow> (Inl e, [Call_checkAddressExists (u_shippingAddress uo),
                          Call_checkAddressExists (u_billingAddress uo)])
      | Inr cba \<Rightarrow>
     (case toAddress cba of
        Inl e \<Rightarrow> (Inl e, [Call_checkAddressExists (u_shippingAddress uo),
                          Call_checkAddressExists (u_billingAddress uo)])
      | Inr ba \<Rightarrow>
          (case List.find isl (validatedLineResults cp uo) of
             Some r \<Rightarrow> Inl (projl r)
           | None \<Rightarrow>
               Inr \<lparr>v_orderId = oid, v_customerInfo = ci, v_shippingAddress = sa,
                    v_billingAddress = ba, v_lines = map projr (validatedLineResults cp uo)\<rparr>,
           [Call_checkAddressExists (u_shippingAddress uo),
            Call_checkAddressExists (u_billingAddress uo)] @ validatedLineCalls cp uo)))))))"
proof -
  have lines: "(if 0 < length es then Inl (es ! 0)
                else Inr \<lparr>v_orderId = oid, v_customerInfo = ci, v_shippingAddress = sa,
                          v_billingAddress = ba, v_lines = vs\<rparr>)
      = (case List.find isl (validatedLineResults cp uo) of
             Some r \<Rightarrow> Inl (projl r)
           | None \<Rightarrow>
               Inr \<lparr>v_orderId = oid, v_customerInfo = ci, v_shippingAddress = sa,
                    v_billingAddress = ba, v_lines = map projr (validatedLineResults cp uo)\<rparr>)"
    if "splitErr (validatedLineResults cp uo) = (vs, es)" for vs es oid ci sa ba
    using splitErr_first [OF that] by (auto split: option.splits if_splits)
  obtain vs es where se: "splitErr (validatedLineResults cp uo) = (vs, es)"
    by (cases "splitErr (validatedLineResults cp uo)")
  show ?thesis
    unfolding validateOrder_def mapCalls_def
    using lines [OF se]
    by (simp add: toCheckedAddress_def se
        validatedLineResults_def [symmetric] validatedLineCalls_def [symmetric]
        split: sum.splits)
qed

lemma toOrderId_errType: "toOrderId s = Inl e \<Longrightarrow> errType e = Validation"
  by (auto simp add: toOrderId_def createValidationError_def split: sum.splits)

lemma toCustomerInfo_errType: "toCustomerInfo u = Inl e \<Longrightarrow> errType e = Validation"
  by (auto simp add: toCustomerInfo_def createValidationError_def split: sum.splits)

lemma toCheckedAddress_errType:
  "fst (toCheckedAddress ca a) = Inl e \<Longrightarrow> errType e = Validation"
  by (auto simp add: toCheckedAddress_def createValidationError_def split: sum.splits)

lemma toAddress_errType: "toAddress a = Inl e \<Longrightarrow> errType e = Validation"
  by (auto simp add: toAddress_def createValidationError_def split: sum.splits)

lemma toValidateOrderLine_errType:
  "fst (toValidateOrderLine cp l) = Inl e \<Longrightarrow> errType e = Validation"
  by (auto simp add: toValidateOrderLine_def toOrderLineId_def toProductCode_def
      toOrderQuantity_def createValidationError_def Let_def
      split: sum.splits prod.splits if_splits)

lemma validatedLineResults_errType:
  assumes "List.find isl (validatedLineResults cp uo) = Some r"
  shows "errType (projl r) = Validation"
proof -
  from assms have "isl r" and "r \<in> set (validatedLineResults cp uo)"
    by (auto simp add: find_Some_iff)
  then obtain l where l: "r = fst (toValidateOrderLine cp l)"
    by (auto simp add: validatedLineResults_def)
  from \<open>isl r\<close> obtain e where e: "r = Inl e"
    by (cases r) simp_all
  with l have "fst (toValidateOrderLine cp l) = Inl e"
    by simp
  then have "errType e = Validation"
    by (rule toValidateOrderLine_errType)
  with e show ?thesis
    by simp
qed

lemma validateOrder_errType:
  assumes "validateOrder cp ca uo = (Inl e, calls)"
  shows "errType e = Validation"
  using assms unfolding validateOrder_steps
  by (auto split: sum.splits option.splits
      dest: toOrderId_errType toCustomerInfo_errType toCheckedAddress_errType
        toAddress_errType validatedLineResults_errType)

lemma priceOrder_errType:
  assumes "priceOrder dmul g vo = (Inl e, calls)"
  shows "errType e = Pricing"
  using assms
  by (auto simp add: priceOrder_def createPricingError_def Let_def
      split: prod.splits if_splits sum.splits)

lemma createEvents_not_Nil: "createEvents po ackOpt \<noteq> []"
  by (simp add: createEvents_def)

text \<open>
  C3. \<open>validateOrder\<close> stops at the first step that fails (order id, customer information,
  shipping address, billing address: each address is first checked by the capability, then
  built) and returns the validation error of that step, having called no capability
  beyond that step, and no validated order. The lines are all validated, whatever their
  results (the calls of every line are made), and when one fails the error of the first
  line that fails is returned. Every error it returns is a \<open>ValidationError\<close>. An empty
  order id makes the whole workflow return a \<open>ValidationError\<close> at once: no capability is
  called, so no price is looked up and no acknowledgment is sent.
\<close>

theorem C3_validateOrder_first_failure:
  fixes uo :: UnvalidatedOrder and ca :: CheckAddressExists
  defines "orderId \<equiv> toOrderId (u_orderId uo)"
    and "customerInfo \<equiv> toCustomerInfo (u_customerInfo uo)"
    and "checkedShipping \<equiv> fst (toCheckedAddress ca (u_shippingAddress uo))"
    and "checkedBilling \<equiv> fst (toCheckedAddress ca (u_billingAddress uo))"
    and "shippingCall \<equiv> Call_checkAddressExists (u_shippingAddress uo)"
    and "billingCall \<equiv> Call_checkAddressExists (u_billingAddress uo)"
  defines "shipping \<equiv> toAddress (projr checkedShipping)"
    and "billing \<equiv> toAddress (projr checkedBilling)"
  shows
    "(\<forall>e. orderId = Inl e \<longrightarrow> validateOrder cp ca uo = (Inl e, []))
   \<and> (\<forall>e. \<not> isl orderId \<and> customerInfo = Inl e \<longrightarrow> validateOrder cp ca uo = (Inl e, []))
   \<and> (\<forall>e. \<not> isl orderId \<and> \<not> isl customerInfo \<and> checkedShipping = Inl e \<longrightarrow>
          validateOrder cp ca uo = (Inl e, [shippingCall]))
   \<and> (\<forall>e. \<not> isl orderId \<and> \<not> isl customerInfo \<and> \<not> isl checkedShipping \<and> shipping = Inl e \<longrightarrow>
          validateOrder cp ca uo = (Inl e, [shippingCall]))
   \<and> (\<forall>e. \<not> isl orderId \<and> \<not> isl customerInfo \<and> \<not> isl checkedShipping \<and> \<not> isl shipping
          \<and> checkedBilling = Inl e \<longrightarrow>
          validateOrder cp ca uo = (Inl e, [shippingCall, billingCall]))
   \<and> (\<forall>e. \<not> isl orderId \<and> \<not> isl customerInfo \<and> \<not> isl checkedShipping \<and> \<not> isl shipping
          \<and> \<not> isl checkedBilling \<and> billing = Inl e \<longrightarrow>
          validateOrder cp ca uo = (Inl e, [shippingCall, billingCall]))
   \<and> (\<forall>e. \<not> isl orderId \<and> \<not> isl customerInfo \<and> \<not> isl checkedShipping \<and> \<not> isl shipping
          \<and> \<not> isl checkedBilling \<and> \<not> isl billing
          \<and> List.find isl (validatedLineResults cp uo) = Some (Inl e) \<longrightarrow>
          validateOrder cp ca uo = (Inl e, [shippingCall, billingCall] @ validatedLineCalls cp uo))
   \<and> (\<not> isl orderId \<and> \<not> isl customerInfo \<and> \<not> isl checkedShipping \<and> \<not> isl shipping
          \<and> \<not> isl checkedBilling \<and> \<not> isl billing
          \<and> List.find isl (validatedLineResults cp uo) = None \<longrightarrow>
          validateOrder cp ca uo =
            (Inr \<lparr>v_orderId = projr orderId, v_customerInfo = projr customerInfo,
                  v_shippingAddress = projr shipping, v_billingAddress = projr billing,
                  v_lines = map projr (validatedLineResults cp uo)\<rparr>,
             [shippingCall, billingCall] @ validatedLineCalls cp uo))
   \<and> (\<forall>e calls. validateOrder cp ca uo = (Inl e, calls) \<longrightarrow> errType e = Validation)
   \<and> (u_orderId uo = [] \<longrightarrow>
          placeOrder dmul cp ca g cl send uo =
            (Inl \<lparr>errType = Validation,
                  msg = [Text ''OrderId'', Text '' must not be null or undefined or empty'']\<rparr>,
             []))"
proof -
  have steps: "\<not> isl x \<Longrightarrow> (case x of Inl e \<Rightarrow> f e | Inr v \<Rightarrow> h v) = h (projr x)" for x :: "Err + 'v" and f :: "Err \<Rightarrow> 'r" and h
    by (cases x) simp_all
  have empty: "toOrderId [] = Inl \<lparr>errType = Validation,
                  msg = [Text ''OrderId'', Text '' must not be null or undefined or empty'']\<rparr>"
    by (simp add: toOrderId_def OrderId_create_def createString_def isEmptyString_def
        createValidationError_def)
  show ?thesis
    unfolding orderId_def customerInfo_def checkedShipping_def checkedBilling_def
      shippingCall_def billingCall_def shipping_def billing_def
  proof (intro conjI allI impI)
    fix e calls
    assume "validateOrder cp ca uo = (Inl e, calls)"
    then show "errType e = Validation"
      by (rule validateOrder_errType)
  next
    assume "u_orderId uo = []"
    then show "placeOrder dmul cp ca g cl send uo =
            (Inl \<lparr>errType = Validation,
                  msg = [Text ''OrderId'', Text '' must not be null or undefined or empty'']\<rparr>,
             [])"
      by (simp add: placeOrder_def validateOrder_steps empty)
  qed (simp_all add: validateOrder_steps steps)
qed

theorem C3_validateOrder_first_failure_witness:
  "placeOrder exactMul anyProduct knownAddress samplePrice sampleLetter (sendResult Sent)
       (sampleUnvalidatedOrder [] ''Springfield'' [orderLine ''L1'' ''Wdddd'' 10])
     = (Inl \<lparr>errType = Validation,
              msg = [Text ''OrderId'', Text '' must not be null or undefined or empty'']\<rparr>, [])
   \<and> validateOrder anyProduct knownAddress
       (sampleUnvalidatedOrder ''O1'' ''Atlantis'' [orderLine ''L1'' ''Wdddd'' 10])
     = (Inl \<lparr>errType = Validation, msg = [Text ''Address not found'']\<rparr>,
        [Call_checkAddressExists (sampleUnvalidatedAddress ''Atlantis'')])
   \<and> validateOrder anyProduct knownAddress
       (sampleUnvalidatedOrder ''O1'' ''Springfield''
          [orderLine ''L1'' ''W1234'' 10, orderLine ''L2'' ''Wdddd'' 5000, orderLine ''L3'' ''Wdddd'' 10])
     = (Inl \<lparr>errType = Validation, msg = [Text ''W1234'', Text '': Must not be null or empty'']\<rparr>,
        [Call_checkAddressExists (sampleUnvalidatedAddress ''Springfield''),
         Call_checkAddressExists (sampleUnvalidatedAddress ''Springfield''),
         Call_checkProductCodeExists \<lparr>productType = widget, code = ''Wdddd''\<rparr>,
         Call_checkProductCodeExists \<lparr>productType = widget, code = ''Wdddd''\<rparr>])
   \<and> fst (validateOrder anyProduct knownAddress
       (sampleUnvalidatedOrder ''O1'' ''Springfield'' [orderLine ''L1'' ''Wdddd'' 10]))
     = Inr (sampleValidatedOrder [widgetLine ''L1'' 10])"
proof -
  let ?noId = "sampleUnvalidatedOrder [] ''Springfield'' [orderLine ''L1'' ''Wdddd'' 10]"
  let ?lost = "sampleUnvalidatedOrder ''O1'' ''Atlantis'' [orderLine ''L1'' ''Wdddd'' 10]"
  let ?lines = "sampleUnvalidatedOrder ''O1'' ''Springfield''
          [orderLine ''L1'' ''W1234'' 10, orderLine ''L2'' ''Wdddd'' 5000, orderLine ''L3'' ''Wdddd'' 10]"
  let ?ok = "sampleUnvalidatedOrder ''O1'' ''Springfield'' [orderLine ''L1'' ''Wdddd'' 10]"
  let ?eLine = "\<lparr>errType = Validation, msg = [Text ''W1234'', Text '': Must not be null or empty'']\<rparr>"
  note noId = C3_validateOrder_first_failure [where uo = "?noId" and ca = knownAddress
      and cp = anyProduct and g = samplePrice and cl = sampleLetter and send = "sendResult Sent"
      and dmul = exactMul]
  note lost = C3_validateOrder_first_failure [where uo = "?lost" and ca = knownAddress
      and cp = anyProduct and g = samplePrice and cl = sampleLetter and send = "sendResult Sent"
      and dmul = exactMul]
  note lines = C3_validateOrder_first_failure [where uo = "?lines" and ca = knownAddress
      and cp = anyProduct and g = samplePrice and cl = sampleLetter and send = "sendResult Sent"
      and dmul = exactMul]
  note ok = C3_validateOrder_first_failure [where uo = "?ok" and ca = knownAddress
      and cp = anyProduct and g = samplePrice and cl = sampleLetter and send = "sendResult Sent"
      and dmul = exactMul]
  have h_noId: "u_orderId ?noId = []"
    by code_simp
  have h_lost: "\<not> isl (toOrderId (u_orderId ?lost))"
    "\<not> isl (toCustomerInfo (u_customerInfo ?lost))"
    "fst (toCheckedAddress knownAddress (u_shippingAddress ?lost))
       = Inl \<lparr>errType = Validation, msg = [Text ''Address not found'']\<rparr>"
    "u_shippingAddress ?lost = sampleUnvalidatedAddress ''Atlantis''"
    by code_simp+
  have header: "\<not> isl (toOrderId (u_orderId uo))"
    "\<not> isl (toCustomerInfo (u_customerInfo uo))"
    "\<not> isl (fst (toCheckedAddress knownAddress (u_shippingAddress uo)))"
    "\<not> isl (toAddress (projr (fst (toCheckedAddress knownAddress (u_shippingAddress uo)))))"
    "\<not> isl (fst (toCheckedAddress knownAddress (u_billingAddress uo)))"
    "\<not> isl (toAddress (projr (fst (toCheckedAddress knownAddress (u_billingAddress uo)))))"
    "u_shippingAddress uo = sampleUnvalidatedAddress ''Springfield''"
    "u_billingAddress uo = sampleUnvalidatedAddress ''Springfield''"
    if "uo = ?lines \<or> uo = ?ok" for uo
    using that by (elim disjE; hypsubst; code_simp)+
  have h_lines: "List.find isl (validatedLineResults anyProduct ?lines) = Some (Inl ?eLine)"
    "validatedLineCalls anyProduct ?lines
       = [Call_checkProductCodeExists \<lparr>productType = widget, code = ''Wdddd''\<rparr>,
          Call_checkProductCodeExists \<lparr>productType = widget, code = ''Wdddd''\<rparr>]"
    by code_simp+
  have h_ok: "List.find isl (validatedLineResults anyProduct ?ok) = None"
    "\<lparr>v_orderId = projr (toOrderId (u_orderId ?ok)),
      v_customerInfo = projr (toCustomerInfo (u_customerInfo ?ok)),
      v_shippingAddress =
        projr (toAddress (projr (fst (toCheckedAddress knownAddress (u_shippingAddress ?ok))))),
      v_billingAddress =
        projr (toAddress (projr (fst (toCheckedAddress knownAddress (u_billingAddress ?ok))))),
      v_lines = map projr (validatedLineResults anyProduct ?ok)\<rparr>
     = sampleValidatedOrder [widgetLine ''L1'' 10]"
    by code_simp+
  have c1: "placeOrder exactMul anyProduct knownAddress samplePrice sampleLetter (sendResult Sent) ?noId
     = (Inl \<lparr>errType = Validation,
              msg = [Text ''OrderId'', Text '' must not be null or undefined or empty'']\<rparr>, [])"
    using noId h_noId by blast
  have c2: "validateOrder anyProduct knownAddress ?lost
     = (Inl \<lparr>errType = Validation, msg = [Text ''Address not found'']\<rparr>,
        [Call_checkAddressExists (sampleUnvalidatedAddress ''Atlantis'')])"
    using lost h_lost(1-3) unfolding h_lost(4) by blast
  have c3: "validateOrder anyProduct knownAddress ?lines
     = (Inl ?eLine,
        [Call_checkAddressExists (sampleUnvalidatedAddress ''Springfield''),
         Call_checkAddressExists (sampleUnvalidatedAddress ''Springfield'')]
        @ [Call_checkProductCodeExists \<lparr>productType = widget, code = ''Wdddd''\<rparr>,
          Call_checkProductCodeExists \<lparr>productType = widget, code = ''Wdddd''\<rparr>])"
    using lines header(1-6) [of ?lines] h_lines(1)
    unfolding header(7,8) [of ?lines, OF disjI1 [OF refl]] h_lines(2) by blast
  have c4: "fst (validateOrder anyProduct knownAddress ?ok) = Inr (sampleValidatedOrder [widgetLine ''L1'' 10])"
  proof -
    have "validateOrder anyProduct knownAddress ?ok =
            (Inr \<lparr>v_orderId = projr (toOrderId (u_orderId ?ok)),
      v_customerInfo = projr (toCustomerInfo (u_customerInfo ?ok)),
      v_shippingAddress =
        projr (toAddress (projr (fst (toCheckedAddress knownAddress (u_shippingAddress ?ok))))),
      v_billingAddress =
        projr (toAddress (projr (fst (toCheckedAddress knownAddress (u_billingAddress ?ok))))),
      v_lines = map projr (validatedLineResults anyProduct ?ok)\<rparr>,
             [Call_checkAddressExists (u_shippingAddress ?ok),
              Call_checkAddressExists (u_billingAddress ?ok)] @ validatedLineCalls anyProduct ?ok)"
      using ok header(1-6) [of ?ok] h_ok(1) by blast
    then show ?thesis
      unfolding h_ok(2) by simp
  qed
  from c1 c2 c3 c4 show ?thesis
    by simp
qed

text \<open>
  C1. Whatever the unvalidated order and the capabilities, \<open>placeOrder\<close> returns a list of
  events that is not empty, or a \<open>ValidationError\<close>, or a \<open>PricingError\<close>. A failure of the
  validation is returned as it is, with no call after those of the validation; a failure
  of the pricing is returned as it is, with no call after those of the pricing; and once
  the order is priced the workflow succeeds, whatever \<open>acknowledgeOrder\<close> returns.
\<close>

theorem C1_placeOrder_result:
  "(case fst (placeOrder dmul cp ca g cl send uo) of
      Inr events \<Rightarrow> events \<noteq> []
    | Inl e \<Rightarrow> errType e = Validation \<or> errType e = Pricing)
   \<and> (\<forall>e calls. validateOrder cp ca uo = (Inl e, calls) \<longrightarrow>
          errType e = Validation \<and> placeOrder dmul cp ca g cl send uo = (Inl e, calls))
   \<and> (\<forall>vo calls1 e calls2.
          validateOrder cp ca uo = (Inr vo, calls1) \<and> priceOrder dmul g vo = (Inl e, calls2) \<longrightarrow>
          errType e = Pricing \<and> placeOrder dmul cp ca g cl send uo = (Inl e, calls1 @ calls2))
   \<and> (\<forall>vo calls1 po calls2.
          validateOrder cp ca uo = (Inr vo, calls1) \<and> priceOrder dmul g vo = (Inr po, calls2) \<longrightarrow>
          placeOrder dmul cp ca g cl send uo =
            (Inr (createEvents po (fst (acknowledgeOrder cl send po))),
             calls1 @ calls2 @ snd (acknowledgeOrder cl send po))
          \<and> createEvents po (fst (acknowledgeOrder cl send po)) \<noteq> [])"
proof (intro conjI allI impI)
  show "case fst (placeOrder dmul cp ca g cl send uo) of
          Inr events \<Rightarrow> events \<noteq> []
        | Inl e \<Rightarrow> errType e = Validation \<or> errType e = Pricing"
    by (auto simp add: placeOrder_def createEvents_not_Nil
        split: sum.splits prod.splits
        dest: validateOrder_errType priceOrder_errType)
next
  fix e calls
  assume v: "validateOrder cp ca uo = (Inl e, calls)"
  then show "errType e = Validation"
    by (rule validateOrder_errType)
  from v show "placeOrder dmul cp ca g cl send uo = (Inl e, calls)"
    by (simp add: placeOrder_def)
next
  fix vo calls1 e calls2
  assume "validateOrder cp ca uo = (Inr vo, calls1) \<and> priceOrder dmul g vo = (Inl e, calls2)"
  then have v: "validateOrder cp ca uo = (Inr vo, calls1)" and p: "priceOrder dmul g vo = (Inl e, calls2)"
    by simp_all
  from p show "errType e = Pricing"
    by (rule priceOrder_errType)
  from v p show "placeOrder dmul cp ca g cl send uo = (Inl e, calls1 @ calls2)"
    by (simp add: placeOrder_def)
next
  fix vo calls1 po calls2
  assume "validateOrder cp ca uo = (Inr vo, calls1) \<and> priceOrder dmul g vo = (Inr po, calls2)"
  then show "placeOrder dmul cp ca g cl send uo =
            (Inr (createEvents po (fst (acknowledgeOrder cl send po))),
             calls1 @ calls2 @ snd (acknowledgeOrder cl send po))"
    by (simp add: placeOrder_def split: prod.splits)
  show "createEvents po (fst (acknowledgeOrder cl send po)) \<noteq> []"
    by (rule createEvents_not_Nil)
qed

theorem C1_placeOrder_result_witness:
  "placeOrder exactMul anyProduct knownAddress samplePrice sampleLetter (sendResult Sent)
       (sampleUnvalidatedOrder [] ''Springfield'' [orderLine ''L1'' ''Wdddd'' 10])
     = (Inl \<lparr>errType = Validation,
              msg = [Text ''OrderId'', Text '' must not be null or undefined or empty'']\<rparr>, [])
   \<and> fst (placeOrder exactMul anyProduct knownAddress samplePrice sampleLetter (sendResult Sent)
       (sampleUnvalidatedOrder ''O1'' ''Springfield'' [orderLine ''L1'' ''Wdddd'' 500]))
     = Inl \<lparr>errType = Pricing, msg = [Num 2500, Text '': Must not be greater than '', Num 1000]\<rparr>
   \<and> fst (placeOrder exactMul anyProduct knownAddress samplePrice sampleLetter (sendResult Sent)
       (sampleUnvalidatedOrder ''O1'' ''Springfield'' [orderLine ''L1'' ''Wdddd'' 10]))
     = Inr (createEvents (samplePricedOrder 50 [pricedWidgetLine ''L1'' 10 50])
              (Some \<lparr>a_orderId = ''O1'', a_emailAddress = ''ada@example.org''\<rparr>))
   \<and> fst (placeOrder exactMul anyProduct knownAddress samplePrice sampleLetter (sendResult NotSent)
       (sampleUnvalidatedOrder ''O1'' ''Springfield'' [orderLine ''L1'' ''Wdddd'' 10]))
     = Inr (createEvents (samplePricedOrder 50 [pricedWidgetLine ''L1'' 10 50]) None)"
proof -
  let ?noId = "sampleUnvalidatedOrder [] ''Springfield'' [orderLine ''L1'' ''Wdddd'' 10]"
  let ?big = "sampleUnvalidatedOrder ''O1'' ''Springfield'' [orderLine ''L1'' ''Wdddd'' 500]"
  let ?ok = "sampleUnvalidatedOrder ''O1'' ''Springfield'' [orderLine ''L1'' ''Wdddd'' 10]"
  let ?po = "samplePricedOrder 50 [pricedWidgetLine ''L1'' 10 50]"
  let ?eId = "\<lparr>errType = Validation,
              msg = [Text ''OrderId'', Text '' must not be null or undefined or empty'']\<rparr>"
  let ?ePrice = "\<lparr>errType = Pricing, msg = [Num 2500, Text '': Must not be greater than '', Num 1000]\<rparr>"
  have v_noId: "validateOrder anyProduct knownAddress ?noId = (Inl ?eId, [])"
    by code_simp
  have v_big: "validateOrder anyProduct knownAddress ?big
      = (Inr (sampleValidatedOrder [widgetLine ''L1'' 500]),
         snd (validateOrder anyProduct knownAddress ?big))"
    by code_simp
  have p_big: "priceOrder exactMul samplePrice (sampleValidatedOrder [widgetLine ''L1'' 500])
      = (Inl ?ePrice, snd (priceOrder exactMul samplePrice (sampleValidatedOrder [widgetLine ''L1'' 500])))"
    by code_simp
  have v_ok: "validateOrder anyProduct knownAddress ?ok
      = (Inr (sampleValidatedOrder [widgetLine ''L1'' 10]),
         snd (validateOrder anyProduct knownAddress ?ok))"
    by code_simp
  have p_ok: "priceOrder exactMul samplePrice (sampleValidatedOrder [widgetLine ''L1'' 10])
      = (Inr ?po, snd (priceOrder exactMul samplePrice (sampleValidatedOrder [widgetLine ''L1'' 10])))"
    by code_simp
  have sent: "fst (acknowledgeOrder sampleLetter (sendResult Sent) ?po)
      = Some \<lparr>a_orderId = ''O1'', a_emailAddress = ''ada@example.org''\<rparr>"
    by code_simp
  have notSent: "fst (acknowledgeOrder sampleLetter (sendResult NotSent) ?po) = None"
    by code_simp
  note noId = C1_placeOrder_result [where dmul = exactMul and cp = anyProduct
      and ca = knownAddress and g = samplePrice and cl = sampleLetter
      and send = "sendResult Sent" and uo = "?noId", THEN conjunct2, THEN conjunct1, rule_format, OF v_noId]
  note big = C1_placeOrder_result [where dmul = exactMul and cp = anyProduct
      and ca = knownAddress and g = samplePrice and cl = sampleLetter
      and send = "sendResult Sent" and uo = "?big", THEN conjunct2, THEN conjunct2, THEN conjunct1, rule_format,
      OF conjI [OF v_big p_big]]
  note okSent = C1_placeOrder_result [where dmul = exactMul and cp = anyProduct
      and ca = knownAddress and g = samplePrice and cl = sampleLetter
      and send = "sendResult Sent" and uo = "?ok", THEN conjunct2, THEN conjunct2, THEN conjunct2, rule_format,
      OF conjI [OF v_ok p_ok]]
  note okNotSent = C1_placeOrder_result [where dmul = exactMul and cp = anyProduct
      and ca = knownAddress and g = samplePrice and cl = sampleLetter
      and send = "sendResult NotSent" and uo = "?ok", THEN conjunct2, THEN conjunct2, THEN conjunct2, rule_format,
      OF conjI [OF v_ok p_ok]]
  from noId big okSent okNotSent show ?thesis
    unfolding sent notSent by simp
qed

end
